theory Spec2Isabelle
  imports Complex_Main "HOL-Library.AList"
begin

section \<open>Python values\<close>

text \<open>
  The analyzers of \<^verbatim>\<open>src/main.py\<close> and \<^verbatim>\<open>src/new.py\<close> work on untyped Python
  dictionaries. A value is one of the JSON-shaped Python objects; a dictionary is an
  association list in insertion order, read with \<open>map_of\<close> and written with
  \<open>AList.update\<close> (an existing key keeps its place, a new one goes to the end, as in
  Python). A float is the real number its literal denotes: the code only stores the
  constants \<open>1.0\<close>, \<open>0.8\<close> and \<open>0.9\<close> and never computes with them.
\<close>

datatype pyval =
    PNone
  | PBool bool
  | PInt int
  | PFloat real
  | PStr string
  | PList "pyval list"
  | PDict "(string \<times> pyval) list"

type_synonym pydict = "(string \<times> pyval) list"

text \<open>An exception: its class name and the text \<open>str(e)\<close>.\<close>

datatype exn = Exn (exn_class: string) (exn_str: string)

text \<open>Truth value testing (\<open>if x:\<close>, \<open>not x\<close>).\<close>

fun truthy :: "pyval \<Rightarrow> bool" where
  "truthy PNone = False"
| "truthy (PBool b) = b"
| "truthy (PInt i) = (i \<noteq> 0)"
| "truthy (PFloat r) = (r \<noteq> 0)"
| "truthy (PStr s) = (s \<noteq> [])"
| "truthy (PList xs) = (xs \<noteq> [])"
| "truthy (PDict d) = (d \<noteq> [])"

fun type_name :: "pyval \<Rightarrow> string" where
  "type_name PNone = ''NoneType''"
| "type_name (PBool b) = ''bool''"
| "type_name (PInt i) = ''int''"
| "type_name (PFloat r) = ''float''"
| "type_name (PStr s) = ''str''"
| "type_name (PList xs) = ''list''"
| "type_name (PDict d) = ''dict''"

definition quoted :: "string \<Rightarrow> string" where
  "quoted s = CHR 0x27 # s @ [CHR 0x27]"

definition attribute_error :: "pyval \<Rightarrow> string \<Rightarrow> exn" where
  "attribute_error v a =
     Exn ''AttributeError'' (quoted (type_name v) @ '' object has no attribute '' @ quoted a)"

text \<open>\<open>d.get(k, default)\<close> on a dictionary.\<close>

definition dict_get :: "pydict \<Rightarrow> string \<Rightarrow> pyval \<Rightarrow> pyval" where
  "dict_get d k dflt = (case map_of d k of Some v \<Rightarrow> v | None \<Rightarrow> dflt)"

text \<open>
  \<open>x.get(k, default)\<close> on any value: only a dictionary has the method, every other
  value raises \<open>AttributeError\<close>.
\<close>

fun py_get :: "pyval \<Rightarrow> string \<Rightarrow> pyval \<Rightarrow> exn + pyval" where
  "py_get (PDict d) k dflt = Inr (dict_get d k dflt)"
| "py_get v k dflt = Inl (attribute_error v ''get'')"

text \<open>\<open>x[k] = v\<close> with a string key.\<close>

fun py_setitem :: "pyval \<Rightarrow> string \<Rightarrow> pyval \<Rightarrow> exn + pyval" where
  "py_setitem (PDict d) k v = Inr (PDict (AList.update k v d))"
| "py_setitem (PList xs) k v =
     Inl (Exn ''TypeError'' ''list indices must be integers or slices, not str'')"
| "py_setitem x k v =
     Inl (Exn ''TypeError'' (quoted (type_name x) @ '' object does not support item assignment''))"

text \<open>\<open>x.update({k1: v1, ...})\<close>: the pairs are written in the order of the literal.\<close>

fun py_update :: "pyval \<Rightarrow> (string \<times> pyval) list \<Rightarrow> exn + pyval" where
  "py_update (PDict d) kvs = Inr (PDict (fold (\<lambda>(k, v). AList.update k v) kvs d))"
| "py_update x kvs = Inl (attribute_error x ''update'')"

text \<open>\<open>xs[0]\<close> on a list.\<close>

fun index0 :: "'a list \<Rightarrow> exn + 'a" where
  "index0 [] = Inl (Exn ''IndexError'' ''list index out of range'')"
| "index0 (x # xs) = Inr x"

text \<open>
  The parts of the Python runtime the analyzers call and that are not modelled further:
  \<open>json.loads\<close> on a text, and the text an f-string substitutes for a value that is
  not already a string.
\<close>

record runtime =
  json_loads :: "string \<Rightarrow> exn + pyval"
  str_of :: "pyval \<Rightarrow> string"

definition fmt :: "runtime \<Rightarrow> pyval \<Rightarrow> string" where
  "fmt rt v = (case v of PStr s \<Rightarrow> s | _ \<Rightarrow> str_of rt v)"

definition fmt_opt :: "string option \<Rightarrow> string" where
  "fmt_opt c = (case c of Some s \<Rightarrow> s | None \<Rightarrow> ''None'')"


section \<open>External collaborators and the call log\<close>

text \<open>
  A prompt is a text, or one of the two long templates of the source with the texts
  substituted into its holes (the domain, the search results and the URL; the domain
  and the URL); the wording of a template is not spelled out.
\<close>

datatype prompt =
    Text string
  | ClassificationPrompt string string string
  | UrheberPrompt string string

record tool_call =
  tc_id :: string
  tc_arguments :: string

record message =
  msg_content :: "string option"
  msg_tool_calls :: "tool_call list option"

record completion =
  choices :: "message list"

datatype chat_msg =
    SystemMsg string
  | UserMsg prompt
  | PriorMsg message
  | ToolMsg string string string

record chat_request =
  req_model :: string
  req_messages :: "chat_msg list"
  req_forced_tool :: "string option"
  req_json_object :: bool

record responses_request =
  rr_model :: string
  rr_input :: prompt
  rr_tools :: "string list"

record response =
  output_text :: string

text \<open>Every call that leaves the process is logged, in order.\<close>

datatype event =
    FindOne pyval pyval
  | ChatCreate chat_request
  | ResponsesCreate responses_request

text \<open>
  A collaborator answers a request given the calls made so far, so it may be stateful
  (answer differently on the second call) and it may raise.
\<close>

type_synonym collection = "event list \<Rightarrow> pyval \<Rightarrow> pyval \<Rightarrow> exn + pydict option"

record client =
  chat_create :: "event list \<Rightarrow> chat_request \<Rightarrow> exn + completion"
  responses_create :: "event list \<Rightarrow> responses_request \<Rightarrow> exn + response"

text \<open>
  The analyzer object of \<^verbatim>\<open>src/main.py\<close>: its provider client and the method
  \<open>_process_response\<close> it inherits from \<open>BaseAnalyzer\<close>, a class outside the given
  sources, taken as a parameter.
\<close>

record analyzer =
  self_client :: client
  process_response :: "string option \<Rightarrow> exn + pyval"


section \<open>Effects\<close>

text \<open>A computation reads and extends the call log and returns a value or raises.\<close>

type_synonym 'a eff = "event list \<Rightarrow> (exn + 'a) \<times> event list"

definition ret :: "'a \<Rightarrow> 'a eff" where
  "ret x = (\<lambda>l. (Inr x, l))"

definition lift :: "exn + 'a \<Rightarrow> 'a eff" where
  "lift r = (\<lambda>l. (r, l))"

definition ebind :: "'a eff \<Rightarrow> ('a \<Rightarrow> 'b eff) \<Rightarrow> 'b eff" where
  "ebind m f = (\<lambda>l. case m l of (Inl e, l') \<Rightarrow> (Inl e, l') | (Inr x, l') \<Rightarrow> f x l')"

text \<open>\<open>try: m except Exception as e: h e\<close>\<close>

definition catch :: "'a eff \<Rightarrow> (exn \<Rightarrow> 'a eff) \<Rightarrow> 'a eff" where
  "catch m h = (\<lambda>l. case m l of (Inl e, l') \<Rightarrow> h e l' | (Inr x, l') \<Rightarrow> (Inr x, l'))"

definition call :: "event \<Rightarrow> (event list \<Rightarrow> exn + 'a) \<Rightarrow> 'a eff" where
  "call ev answer = (\<lambda>l. (answer l, l @ [ev]))"


section \<open>\<^verbatim>\<open>src/main.py\<close>: cache lookup, research, analyze\<close>

definition db_query :: "string \<Rightarrow> pyval" where
  "db_query domain =
     PDict [(''$and'',
       PList [PDict [(''domain'', PDict [(''$regex'', PStr domain), (''$options'', PStr ''i'')])],
              PDict [(''urheber'', PDict [(''$exists'', PBool True), (''$ne'', PStr [])])]])]"

definition db_projection :: pyval where
  "db_projection = PDict [(''urheber'', PInt 1), (''_id'', PInt 0)]"

text \<open>
  \<open>_check_database_for_domain\<close>: one \<open>find_one\<close>; the stored value when the answer is a
  non-empty record with the key \<open>urheber\<close>, \<open>None\<close> otherwise and on any exception.
\<close>

definition check_database_for_domain :: "collection \<Rightarrow> string \<Rightarrow> pyval eff" where
  "check_database_for_domain coll domain =
     catch
       (ebind (call (FindOne (db_query domain) db_projection)
                 (\<lambda>l. coll l (db_query domain) db_projection))
          (\<lambda>result. case result of
               None \<Rightarrow> ret PNone
             | Some r \<Rightarrow>
                 if r \<noteq> [] \<and> map_of r ''urheber'' \<noteq> None
                 then ret (dict_get r ''urheber'' PNone)
                 else ret PNone))
       (\<lambda>e. ret PNone)"

definition search_query :: "string \<Rightarrow> string \<Rightarrow> string" where
  "search_query domain url =
     ''Wer betreibt die Website '' @ domain @ '' oder '' @ url @
     ''? Ist es eine staatliche Einrichtung, Organisation, Unternehmen oder Privatperson?''"

definition search_system :: string where
  "search_system =
     ''You search the web for information and provide factual information only.''"

definition classify_system :: string where
  "classify_system = ''You analyze website operators and classify them into categories.''"

definition search_request :: "string \<Rightarrow> string \<Rightarrow> chat_request" where
  "search_request domain url =
     \<lparr> req_model = ''gpt-4o'',
       req_messages = [SystemMsg search_system, UserMsg (Text (search_query domain url))],
       req_forced_tool = Some ''web_search'',
       req_json_object = False \<rparr>"

definition results_request :: "string \<Rightarrow> string \<Rightarrow> message \<Rightarrow> tool_call \<Rightarrow> chat_request" where
  "results_request domain url search_message tc =
     \<lparr> req_model = ''gpt-4o'',
       req_messages = [SystemMsg search_system, UserMsg (Text (search_query domain url)),
                       PriorMsg search_message,
                       ToolMsg (tc_id tc) ''web_search'' ''Search results for the domain...''],
       req_forced_tool = None,
       req_json_object = False \<rparr>"

definition classification_request :: "string \<Rightarrow> string option \<Rightarrow> string \<Rightarrow> chat_request" where
  "classification_request domain search_results url =
     \<lparr> req_model = ''gpt-4o'',
       req_messages = [SystemMsg classify_system,
                       UserMsg (ClassificationPrompt domain (fmt_opt search_results) url)],
       req_forced_tool = None,
       req_json_object = True \<rparr>"

text \<open>
  The \<open>try\<close> body of \<open>_research_domain_with_web_search\<close> up to the call of
  \<open>_process_response\<close>: the search request, the tool-call round trip when the answer
  carries a tool call, the classification request. The text built from the tool
  arguments is overwritten by the answer of the second request before it is used; what
  remains of reading them is the exception it may raise. The URL reaches the requests
  only through f-strings, so the function takes the text they substitute for it. Output
  printed to the console is not part of the model.
\<close>

definition research_classify :: "analyzer \<Rightarrow> runtime \<Rightarrow> string \<Rightarrow> string \<Rightarrow> pyval eff" where
  "research_classify an rt domain url =
     ebind (call (ChatCreate (search_request domain url))
              (\<lambda>l. chat_create (self_client an) l (search_request domain url)))
       (\<lambda>search_response.
     ebind (lift (index0 (choices search_response)))
       (\<lambda>search_message.
     ebind
       (case msg_tool_calls search_message of
          Some (tc # tcs) \<Rightarrow>
            ebind (lift (json_loads rt (tc_arguments tc)))
              (\<lambda>search_args.
            ebind (lift (py_get search_args ''query'' (PStr (search_query domain url))))
              (\<lambda>q.
            ebind (call (ChatCreate (results_request domain url search_message tc))
                     (\<lambda>l. chat_create (self_client an) l
                              (results_request domain url search_message tc)))
              (\<lambda>results_response.
            ebind (lift (index0 (choices results_response)))
              (\<lambda>m. ret (msg_content m)))))
        | _ \<Rightarrow> ret (Some ''No search results available.''))
       (\<lambda>search_results.
     ebind (call (ChatCreate (classification_request domain search_results url))
              (\<lambda>l. chat_create (self_client an) l
                       (classification_request domain search_results url)))
       (\<lambda>classification_response.
     ebind (lift (index0 (choices classification_response)))
       (\<lambda>m. lift (process_response an (msg_content m)))))))"

text \<open>The whole \<open>try\<close> body: the three fields are written into the processed answer.\<close>

definition research_body :: "analyzer \<Rightarrow> runtime \<Rightarrow> string \<Rightarrow> string \<Rightarrow> pyval eff" where
  "research_body an rt domain url =
     ebind (research_classify an rt domain url)
       (\<lambda>result.
     ebind (lift (py_setitem result ''method'' (PStr ''web_search'')))
       (\<lambda>r1.
     ebind (lift (py_setitem r1 ''confidence'' (PFloat 0.8)))
       (\<lambda>r2.
     ebind (lift (py_setitem r2 ''domain'' (PStr domain)))
       (\<lambda>r3.
     ebind (lift (py_get r3 ''urheber'' (PStr ''unknown'')))
       (\<lambda>shown. ret r3)))))"

definition research_error :: "string \<Rightarrow> exn \<Rightarrow> pyval" where
  "research_error domain e =
     PDict [(''urheber'', PStr ''unbekannt''), (''confidence'', PInt 0),
            (''method'', PStr ''error''), (''error'', PStr (exn_str e)),
            (''domain'', PStr domain)]"

definition research_domain_with_web_search ::
    "analyzer \<Rightarrow> runtime \<Rightarrow> string \<Rightarrow> string \<Rightarrow> pyval eff" where
  "research_domain_with_web_search an rt domain url =
     catch (research_body an rt domain url) (\<lambda>e. ret (research_error domain e))"

definition database_hit :: "pyval \<Rightarrow> string \<Rightarrow> pyval" where
  "database_hit existing_urheber full_domain =
     PDict [(''urheber'', existing_urheber), (''confidence'', PFloat 1.0),
            (''method'', PStr ''database''), (''domain'', PStr full_domain)]"

text \<open>
  \<open>UrhebertAnalyzer.analyze\<close> of \<^verbatim>\<open>src/main.py\<close>. The keyword argument
  \<open>collection\<close> is \<open>None\<close> when no store is given.
\<close>

definition analyze :: "analyzer \<Rightarrow> runtime \<Rightarrow> pydict \<Rightarrow> collection option \<Rightarrow> pyval eff" where
  "analyze an rt document collection =
     (let url = dict_get document ''url'' (PStr []);
          domain_info = dict_get document ''domain_info'' (PDict [])
      in
      ebind (lift (py_get domain_info ''domain'' (PStr [])))
        (\<lambda>domain.
      ebind (lift (py_get domain_info ''tld'' (PStr [])))
        (\<lambda>tld.
      if \<not> truthy domain \<or> \<not> truthy tld
      then ret (PDict [(''urheber'', PStr ''unbekannt''), (''confidence'', PInt 0),
                       (''method'', PStr ''failure'')])
      else
        (let full_domain = fmt rt domain @ ''.'' @ fmt rt tld in
         case collection of
           Some coll \<Rightarrow>
             ebind (check_database_for_domain coll full_domain)
               (\<lambda>existing_urheber.
                  if truthy existing_urheber
                  then ret (database_hit existing_urheber full_domain)
                  else research_domain_with_web_search an rt full_domain (fmt rt url))
         | None \<Rightarrow> research_domain_with_web_search an rt full_domain (fmt rt url)))))"


section \<open>\<^verbatim>\<open>src/new.py\<close>: analyze through the Responses API\<close>

definition urheber_request :: "string \<Rightarrow> string \<Rightarrow> responses_request" where
  "urheber_request full_domain url =
     \<lparr> rr_model = ''gpt-4o'',
       rr_input = UrheberPrompt full_domain url,
       rr_tools = [''web_search''] \<rparr>"

text \<open>
  \<open>UrhebertAnalyzer.analyze\<close> of \<^verbatim>\<open>src/new.py\<close>. It accepts keyword arguments and
  reads none of them: the \<open>collection\<close> argument is there and unused.
\<close>

definition analyze_new :: "client \<Rightarrow> runtime \<Rightarrow> pydict \<Rightarrow> collection option \<Rightarrow> pyval eff" where
  "analyze_new cl rt document collection =
     (let domain_info = dict_get document ''domain_info'' (PDict []) in
      ebind (lift (py_get domain_info ''domain'' (PStr [])))
        (\<lambda>domain.
      ebind (lift (py_get domain_info ''tld'' (PStr [])))
        (\<lambda>tld.
      let url = dict_get document ''url'' (PStr []) in
      if \<not> truthy domain \<or> \<not> truthy tld
      then ret (PDict [(''urheber'', PStr ''unbekannt''), (''confidence'', PInt 0),
                       (''method'', PStr ''failure''),
                       (''reason'', PStr ''Missing domain or TLD information.'')])
      else
        (let full_domain = fmt rt domain @ ''.'' @ fmt rt tld in
         catch
           (ebind (call (ResponsesCreate (urheber_request full_domain (fmt rt url)))
                     (\<lambda>l. responses_create cl l (urheber_request full_domain (fmt rt url))))
              (\<lambda>response.
            ebind (lift (json_loads rt (output_text response)))
              (\<lambda>result.
            ebind (lift (py_update result
                           [(''method'', PStr ''responses_api_web_search''),
                            (''confidence'', PFloat 0.9),
                            (''domain'', PStr full_domain)]))
              (\<lambda>updated. ret updated))))
           (\<lambda>e. ret (research_error full_domain e))))))"


section \<open>Reading a result\<close>

fun field :: "pyval \<Rightarrow> string \<Rightarrow> pyval option" where
  "field (PDict d) k = map_of d k"
| "field v k = None"

text \<open>The number a stored confidence denotes, integer or float.\<close>

definition confidence_of :: "pyval \<Rightarrow> real option" where
  "confidence_of res =
     (case field res ''confidence'' of
        Some (PInt i) \<Rightarrow> Some (of_int i)
      | Some (PFloat r) \<Rightarrow> Some r
      | _ \<Rightarrow> None)"

definition method_of :: "pyval \<Rightarrow> string option" where
  "method_of res = (case field res ''method'' of Some (PStr s) \<Rightarrow> Some s | _ \<Rightarrow> None)"

text \<open>The seven categories named in the prompts of both files.\<close>

definition categories :: "string list" where
  "categories = [''staatlich'', ''nicht staatliche Hilfsorganisation'', ''sonstige Vereine'',
                 ''Organisationen'', ''Gemeinschaften'', ''Unternehmen'', ''Privatperson'']"


section \<open>Names for the steps of a call\<close>

text \<open>The key \<open>f"{domain}.{tld}"\<close> and the text of the URL, read from the document.\<close>

definition full_domain :: "runtime \<Rightarrow> pydict \<Rightarrow> string" where
  "full_domain rt di =
     fmt rt (dict_get di ''domain'' (PStr [])) @ ''.'' @ fmt rt (dict_get di ''tld'' (PStr []))"

definition url_text :: "runtime \<Rightarrow> pydict \<Rightarrow> string" where
  "url_text rt document = fmt rt (dict_get document ''url'' (PStr []))"

text \<open>
  The document gives no usable \<open>domain\<close> or no usable \<open>tld\<close>: its \<open>domain_info\<close>
  (the empty dictionary when the key is absent) is a dictionary in which one of the two
  is missing or not true, or it is not a dictionary at all, so that neither can be read.
\<close>

definition lacks_domain_or_tld :: "pydict \<Rightarrow> bool" where
  "lacks_domain_or_tld document =
     (case dict_get document ''domain_info'' (PDict []) of
        PDict di \<Rightarrow>
          \<not> truthy (dict_get di ''domain'' (PStr [])) \<or> \<not> truthy (dict_get di ''tld'' (PStr []))
      | _ \<Rightarrow> True)"

text \<open>
  The cache step of \<open>analyze\<close> in \<^verbatim>\<open>src/main.py\<close> ends without a hit, leaving the
  log \<open>l1\<close>: no store was given, or the lookup returned a value that is not true.
\<close>

definition cache_miss :: "collection option \<Rightarrow> string \<Rightarrow> event list \<Rightarrow> event list \<Rightarrow> bool" where
  "cache_miss collection domain l l1 =
     (case collection of
        None \<Rightarrow> l1 = l
      | Some coll \<Rightarrow>
          (case check_database_for_domain coll domain l of
             (Inr v, l') \<Rightarrow> \<not> truthy v \<and> l1 = l'
           | (Inl e, l') \<Rightarrow> False))"

text \<open>What the research path of each file returns for a processed answer \<open>d\<close>.\<close>

definition web_search_result :: "pydict \<Rightarrow> string \<Rightarrow> pyval" where
  "web_search_result d domain =
     PDict (AList.update ''domain'' (PStr domain)
             (AList.update ''confidence'' (PFloat 0.8)
               (AList.update ''method'' (PStr ''web_search'') d)))"

definition responses_result :: "pydict \<Rightarrow> string \<Rightarrow> pyval" where
  "responses_result d domain =
     PDict (AList.update ''domain'' (PStr domain)
             (AList.update ''confidence'' (PFloat 0.9)
               (AList.update ''method'' (PStr ''responses_api_web_search'') d)))"

text \<open>A collaborator is deterministic when its answer does not depend on earlier calls.\<close>

definition deterministic_client :: "client \<Rightarrow> bool" where
  "deterministic_client cl =
     ((\<forall>l l' r. chat_create cl l r = chat_create cl l' r) \<and>
      (\<forall>l l' r. responses_create cl l r = responses_create cl l' r))"

definition deterministic_store :: "collection option \<Rightarrow> bool" where
  "deterministic_store collection =
     (case collection of
        None \<Rightarrow> True
      | Some coll \<Rightarrow> (\<forall>l l' q p. coll l q p = coll l' q p))"

text \<open>The result of a computation does not depend on the log it starts from.\<close>

definition log_independent :: "'a eff \<Rightarrow> bool" where
  "log_independent m = (\<forall>l l'. fst (m l) = fst (m l'))"


section \<open>Sample inputs\<close>

text \<open>The example document of the specification.\<close>

definition sample_document :: pydict where
  "sample_document =
     [(''url'', PStr ''https://help.example.org/x''),
      (''domain_info'', PDict [(''domain'', PStr ''example''), (''tld'', PStr ''org'')])]"

text \<open>A document without a top-level domain, and one whose \<open>domain_info\<close> is \<open>None\<close>.\<close>

definition sample_document_no_tld :: pydict where
  "sample_document_no_tld =
     [(''url'', PStr ''https://localhost/x''),
      (''domain_info'', PDict [(''domain'', PStr ''localhost'')])]"

definition sample_document_none :: pydict where
  "sample_document_none =
     [(''url'', PStr ''https://help.example.org/x''), (''domain_info'', PNone)]"

text \<open>
  Stores: one that answers the query for \<open>example.org\<close> with the stored record
  \<open>{"urheber": "Unternehmen"}\<close>, one whose stored value is \<open>"unbekannt"\<close>, and one that
  raises on every query.
\<close>

definition sample_store :: collection where
  "sample_store =
     (\<lambda>l q p. if q = db_query ''example.org''
               then Inr (Some [(''urheber'', PStr ''Unternehmen'')]) else Inr None)"

definition sample_store_unbekannt :: collection where
  "sample_store_unbekannt =
     (\<lambda>l q p. if q = db_query ''example.org''
               then Inr (Some [(''urheber'', PStr ''unbekannt'')]) else Inr None)"

definition sample_store_raising :: collection where
  "sample_store_raising =
     (\<lambda>l q p. Inl (Exn ''ServerSelectionTimeoutError'' ''localhost:27017: connection refused''))"

text \<open>Provider answers used below, and \<open>json.loads\<close> on exactly these texts.\<close>

definition key_begruendung :: string where
  "key_begruendung = ''begr'' @ [CHR 0xFC] @ ''ndung''"

definition answer_unternehmen :: string where
  \<open>answer_unternehmen =
     ''{"urheber": "Unternehmen", "begr'' @ [CHR 0xFC] @
     ''ndung": "Impressum", "quellen": ["https://example.org/impressum"]}''\<close>

definition answer_bank :: string where
  \<open>answer_bank = ''{"urheber": "Bank"}''\<close>

definition answer_category_only :: string where
  \<open>answer_category_only = ''{"urheber": "Unternehmen"}''\<close>

definition answer_unbekannt :: string where
  \<open>answer_unbekannt = ''{"urheber": "unbekannt"}''\<close>

definition answer_empty_object :: string where
  "answer_empty_object = ''{}''"

definition answer_not_json :: string where
  "answer_not_json = ''Der Betreiber ist ein Unternehmen.''"

definition tool_arguments :: string where
  \<open>tool_arguments = ''{"query": "example.org"}''\<close>

definition sample_json_loads :: "string \<Rightarrow> exn + pyval" where
  "sample_json_loads s =
     (if s = answer_unternehmen then
        Inr (PDict [(''urheber'', PStr ''Unternehmen''), (key_begruendung, PStr ''Impressum''),
                    (''quellen'', PList [PStr ''https://example.org/impressum''])])
      else if s = answer_bank then Inr (PDict [(''urheber'', PStr ''Bank'')])
      else if s = answer_unbekannt then Inr (PDict [(''urheber'', PStr ''unbekannt'')])
      else if s = answer_empty_object then Inr (PDict [])
      else if s = answer_category_only then Inr (PDict [(''urheber'', PStr ''Unternehmen'')])
      else if s = tool_arguments then Inr (PDict [(''query'', PStr ''example.org'')])
      else Inl (Exn ''JSONDecodeError'' ''Expecting value: line 1 column 1 (char 0)''))"

definition sample_str_of :: "pyval \<Rightarrow> string" where
  "sample_str_of v =
     (case v of PNone \<Rightarrow> ''None'' | PBool b \<Rightarrow> (if b then ''True'' else ''False'')
      | _ \<Rightarrow> [])"

definition sample_runtime :: runtime where
  "sample_runtime = \<lparr> json_loads = sample_json_loads, str_of = sample_str_of \<rparr>"

text \<open>
  Provider clients: one that answers every request with the given text (a tool call
  first when the request forces one), and one that raises an exception whose text is
  empty, as \<open>raise Exception()\<close> does.
\<close>

definition answering_client :: "string \<Rightarrow> client" where
  "answering_client text =
     \<lparr> chat_create =
         (\<lambda>l r. if req_forced_tool r = Some ''web_search''
                then Inr \<lparr> choices = [\<lparr> msg_content = None,
                         msg_tool_calls = Some [\<lparr> tc_id = ''call_1'',
                                                  tc_arguments = tool_arguments \<rparr>] \<rparr>] \<rparr>
                else Inr \<lparr> choices = [\<lparr> msg_content = Some text,
                                         msg_tool_calls = None \<rparr>] \<rparr>),
       responses_create = (\<lambda>l r. Inr \<lparr> output_text = text \<rparr>) \<rparr>"

definition raising_client :: client where
  "raising_client =
     \<lparr> chat_create = (\<lambda>l r. Inl (Exn ''Exception'' [])),
       responses_create = (\<lambda>l r. Inl (Exn ''Exception'' [])) \<rparr>"

text \<open>
  An analyzer of \<^verbatim>\<open>src/main.py\<close> whose \<open>_process_response\<close> parses the text with
  \<open>json.loads\<close>.
\<close>

definition sample_process_response :: "string option \<Rightarrow> exn + pyval" where
  "sample_process_response c =
     (case c of
        Some s \<Rightarrow> sample_json_loads s
      | None \<Rightarrow> Inl (Exn ''TypeError''
                  ''the JSON object must be str, bytes or bytearray, not NoneType''))"

definition sample_analyzer :: "client \<Rightarrow> analyzer" where
  "sample_analyzer cl = \<lparr> self_client = cl, process_response = sample_process_response \<rparr>"


section \<open>How a call unfolds\<close>

lemma analyze_invalid:
  assumes "dict_get document ''domain_info'' (PDict []) = PDict di"
      and "\<not> truthy (dict_get di ''domain'' (PStr [])) \<or> \<not> truthy (dict_get di ''tld'' (PStr []))"
  shows "analyze an rt document collection l =
           (Inr (PDict [(''urheber'', PStr ''unbekannt''), (''confidence'', PInt 0),
                        (''method'', PStr ''failure'')]), l)"
  using assms by (auto simp add: analyze_def Let_def ebind_def lift_def ret_def)

lemma analyze_new_invalid:
  assumes "dict_get document ''domain_info'' (PDict []) = PDict di"
      and "\<not> truthy (dict_get di ''domain'' (PStr [])) \<or> \<not> truthy (dict_get di ''tld'' (PStr []))"
  shows "analyze_new cl rt document collection l =
           (Inr (PDict [(''urheber'', PStr ''unbekannt''), (''confidence'', PInt 0),
                        (''method'', PStr ''failure''),
                        (''reason'', PStr ''Missing domain or TLD information.'')]), l)"
  using assms by (auto simp add: analyze_new_def Let_def ebind_def lift_def ret_def)

lemma analyze_not_dict:
  assumes "\<forall>di. dict_get document ''domain_info'' (PDict []) \<noteq> PDict di"
  shows "analyze an rt document collection l =
           (Inl (attribute_error (dict_get document ''domain_info'' (PDict [])) ''get''), l)"
  using assms
  by (cases "dict_get document ''domain_info'' (PDict [])")
     (simp_all add: analyze_def Let_def ebind_def lift_def)

lemma analyze_new_not_dict:
  assumes "\<forall>di. dict_get document ''domain_info'' (PDict []) \<noteq> PDict di"
  shows "analyze_new cl rt document collection l =
           (Inl (attribute_error (dict_get document ''domain_info'' (PDict [])) ''get''), l)"
  using assms
  by (cases "dict_get document ''domain_info'' (PDict [])")
     (simp_all add: analyze_new_def Let_def ebind_def lift_def)

lemma analyze_valid:
  assumes "dict_get document ''domain_info'' (PDict []) = PDict di"
      and "truthy (dict_get di ''domain'' (PStr []))"
      and "truthy (dict_get di ''tld'' (PStr []))"
  shows "analyze an rt document collection l =
     (case collection of
        Some coll \<Rightarrow>
          (case check_database_for_domain coll (full_domain rt di) l of
             (Inr v, l') \<Rightarrow>
               if truthy v then (Inr (database_hit v (full_domain rt di)), l')
               else research_domain_with_web_search an rt (full_domain rt di) (url_text rt document) l'
           | (Inl e, l') \<Rightarrow> (Inl e, l'))
      | None \<Rightarrow> research_domain_with_web_search an rt (full_domain rt di) (url_text rt document) l)"
  using assms
  by (simp add: analyze_def Let_def ebind_def lift_def ret_def full_domain_def url_text_def
           split: option.splits prod.splits sum.splits)

lemma check_database_total:
  "\<exists>v. check_database_for_domain coll domain l =
          (Inr v, l @ [FindOne (db_query domain) db_projection])"
  by (simp add: check_database_for_domain_def catch_def ebind_def call_def ret_def
           split: option.splits prod.splits sum.splits)

lemma analyze_miss:
  assumes "dict_get document ''domain_info'' (PDict []) = PDict di"
      and "truthy (dict_get di ''domain'' (PStr []))"
      and "truthy (dict_get di ''tld'' (PStr []))"
      and "cache_miss collection (full_domain rt di) l l1"
  shows "analyze an rt document collection l =
           research_domain_with_web_search an rt (full_domain rt di) (url_text rt document) l1"
  using assms(4) unfolding analyze_valid[OF assms(1-3)] cache_miss_def
  by (auto split: option.splits prod.splits sum.splits)

lemma research_after_classify:
  assumes "research_classify an rt domain url l = (Inr v, l')"
  shows "research_domain_with_web_search an rt domain url l =
           (case v of
              PDict d \<Rightarrow> (Inr (web_search_result d domain), l')
            | _ \<Rightarrow> (case py_setitem v ''method'' (PStr ''web_search'') of
                       Inl e \<Rightarrow> (Inr (research_error domain e), l')
                     | Inr r \<Rightarrow> (Inr r, l')))"
  using assms
  by (cases v) (simp_all add: research_domain_with_web_search_def research_body_def catch_def
        ebind_def lift_def ret_def web_search_result_def)

lemma research_after_raise:
  assumes "research_classify an rt domain url l = (Inl e, l')"
  shows "research_domain_with_web_search an rt domain url l = (Inr (research_error domain e), l')"
  using assms
  by (simp add: research_domain_with_web_search_def research_body_def catch_def
        ebind_def lift_def ret_def)

lemma research_result_cases:
  "\<exists>res l'. research_domain_with_web_search an rt domain url l = (Inr res, l') \<and>
      ((\<exists>e. res = research_error domain e) \<or> (\<exists>d. res = web_search_result d domain))"
proof (cases "research_classify an rt domain url l")
  case (Pair r l')
  show ?thesis
  proof (cases r)
    case (Inl e)
    with Pair show ?thesis by (auto simp add: research_after_raise)
  next
    case (Inr v)
    with Pair show ?thesis
      by (cases v) (auto simp add: research_after_classify)
  qed
qed

lemma analyze_new_valid:
  assumes "dict_get document ''domain_info'' (PDict []) = PDict di"
      and "truthy (dict_get di ''domain'' (PStr []))"
      and "truthy (dict_get di ''tld'' (PStr []))"
  shows "analyze_new cl rt document collection l =
     ((case responses_create cl l (urheber_request (full_domain rt di) (url_text rt document)) of
         Inl e \<Rightarrow> Inr (research_error (full_domain rt di) e)
       | Inr response \<Rightarrow>
           (case json_loads rt (output_text response) of
              Inl e \<Rightarrow> Inr (research_error (full_domain rt di) e)
            | Inr (PDict d) \<Rightarrow> Inr (responses_result d (full_domain rt di))
            | Inr v \<Rightarrow> Inr (research_error (full_domain rt di) (attribute_error v ''update'')))),
      l @ [ResponsesCreate (urheber_request (full_domain rt di) (url_text rt document))])"
  using assms
  by (simp add: analyze_new_def Let_def ebind_def lift_def ret_def catch_def call_def
        full_domain_def url_text_def responses_result_def
        split: sum.splits pyval.splits)

lemma check_database_hit:
  assumes "coll l (db_query domain) db_projection = Inr (Some r)"
      and "map_of r ''urheber'' = Some v"
  shows "check_database_for_domain coll domain l =
           (Inr v, l @ [FindOne (db_query domain) db_projection])"
  using assms
  by (auto simp add: check_database_for_domain_def catch_def ebind_def call_def ret_def
        dict_get_def)

lemma check_database_raise:
  assumes "coll l (db_query domain) db_projection = Inl e"
  shows "check_database_for_domain coll domain l =
           (Inr PNone, l @ [FindOne (db_query domain) db_projection])"
  using assms
  by (simp add: check_database_for_domain_def catch_def ebind_def call_def ret_def)

section \<open>The cache takes precedence\<close>

text \<open>
  Claim C1, as the code has it. In \<^verbatim>\<open>src/main.py\<close>, for a document whose
  \<open>domain_info\<close> holds a true \<open>domain\<close> and \<open>tld\<close> and a store whose \<open>find_one\<close>
  answers the query for \<open>domain.tld\<close> with a record carrying a true \<open>urheber\<close>,
  \<open>analyze\<close> returns that value with \<open>method = database\<close>, \<open>confidence = 1.0\<close> and
  \<open>domain\<close> the full domain, and the store query is the only external call: the
  provider is not contacted. In \<^verbatim>\<open>src/new.py\<close> there is no cache step: whatever
  store is passed, the only external call of \<open>analyze\<close> is the provider request.
\<close>

theorem cache_hit_takes_precedence:
  assumes "dict_get document ''domain_info'' (PDict []) = PDict di"
      and "truthy (dict_get di ''domain'' (PStr []))"
      and "truthy (dict_get di ''tld'' (PStr []))"
      and "coll l (db_query (full_domain rt di)) db_projection = Inr (Some r)"
      and "map_of r ''urheber'' = Some v"
      and "truthy v"
  shows "analyze an rt document (Some coll) l =
           (Inr (PDict [(''urheber'', v), (''confidence'', PFloat 1.0),
                        (''method'', PStr ''database''),
                        (''domain'', PStr (full_domain rt di))]),
            l @ [FindOne (db_query (full_domain rt di)) db_projection])
       \<and> snd (analyze_new cl rt document (Some coll) l) =
            l @ [ResponsesCreate (urheber_request (full_domain rt di) (url_text rt document))]"
  using assms(6) check_database_hit[of coll l "full_domain rt di" r v, OF assms(4,5)]
  by (simp add: analyze_valid[OF assms(1-3)] analyze_new_valid[OF assms(1-3)] database_hit_def)

lemma sample_document_info:
  "dict_get sample_document ''domain_info'' (PDict []) =
     PDict [(''domain'', PStr ''example''), (''tld'', PStr ''org'')]"
  by (simp add: sample_document_def dict_get_def)

lemma sample_full_domain:
  "full_domain sample_runtime [(''domain'', PStr ''example''), (''tld'', PStr ''org'')] =
     ''example.org''"
  by (simp add: full_domain_def dict_get_def fmt_def)

lemma sample_url_text:
  "url_text sample_runtime sample_document = ''https://help.example.org/x''"
  by (simp add: url_text_def sample_document_def dict_get_def fmt_def)

lemma sample_runtime_sel:
  "json_loads sample_runtime = sample_json_loads" "str_of sample_runtime = sample_str_of"
  by (simp_all add: sample_runtime_def)

lemma sample_truthy:
  "truthy (dict_get [(''domain'', PStr ''example''), (''tld'', PStr ''org'')] ''domain'' (PStr []))"
  "truthy (dict_get [(''domain'', PStr ''example''), (''tld'', PStr ''org'')] ''tld'' (PStr []))"
  by (simp_all add: dict_get_def)

theorem cache_hit_takes_precedence_witness:
  "analyze (sample_analyzer raising_client) sample_runtime sample_document (Some sample_store) [] =
     (Inr (PDict [(''urheber'', PStr ''Unternehmen''), (''confidence'', PFloat 1.0),
                  (''method'', PStr ''database''), (''domain'', PStr ''example.org'')]),
      [FindOne (db_query ''example.org'') db_projection])"
proof -
  have found: "sample_store [] (db_query (full_domain sample_runtime
                 [(''domain'', PStr ''example''), (''tld'', PStr ''org'')])) db_projection =
               Inr (Some [(''urheber'', PStr ''Unternehmen'')])"
    by (simp add: sample_full_domain sample_store_def)
  have stored: "map_of [(''urheber'', PStr ''Unternehmen'')] ''urheber'' =
                  Some (PStr ''Unternehmen'')"
    by simp
  have nonempty: "truthy (PStr ''Unternehmen'')" by simp
  show ?thesis
    using cache_hit_takes_precedence
      [of sample_document "[(''domain'', PStr ''example''), (''tld'', PStr ''org'')]"
          sample_store "[]" sample_runtime "[(''urheber'', PStr ''Unternehmen'')]"
          "PStr ''Unternehmen''" "sample_analyzer raising_client" raising_client,
       OF sample_document_info sample_truthy found stored nonempty]
    by (simp add: sample_full_domain)
qed

text \<open>
  On the example document of the specification with the store holding the record for
  \<open>example.org\<close>, \<open>analyze\<close> of \<^verbatim>\<open>src/new.py\<close> asks the provider and returns the
  provider's answer, not the stored value.
\<close>

theorem new_analyze_ignores_store:
  "analyze_new (answering_client answer_bank) sample_runtime sample_document
       (Some sample_store) [] =
     (Inr (PDict [(''urheber'', PStr ''Bank''),
                  (''method'', PStr ''responses_api_web_search''),
                  (''confidence'', PFloat 0.9), (''domain'', PStr ''example.org'')]),
      [ResponsesCreate (urheber_request ''example.org'' ''https://help.example.org/x'')])"
  by (simp add: analyze_new_valid[OF sample_document_info] dict_get_def sample_full_domain
        sample_url_text answering_client_def sample_runtime_sel sample_json_loads_def
        responses_result_def answer_bank_def answer_unternehmen_def)

section \<open>Validation\<close>

text \<open>
  Claim C4, as the code has it. For every document whose \<open>domain_info\<close> is absent or a
  dictionary in which \<open>domain\<close> or \<open>tld\<close> is missing or empty (not true),
  \<open>analyze\<close> of both files returns a result with \<open>method = failure\<close>,
  \<open>urheber = unbekannt\<close> and \<open>confidence = 0\<close>, and the result has no \<open>domain\<close>
  field.
\<close>

theorem missing_domain_or_tld_is_failure:
  assumes "dict_get document ''domain_info'' (PDict []) = PDict di"
      and "\<not> truthy (dict_get di ''domain'' (PStr [])) \<or> \<not> truthy (dict_get di ''tld'' (PStr []))"
  shows "fst (analyze an rt document collection l) =
           Inr (PDict [(''urheber'', PStr ''unbekannt''), (''confidence'', PInt 0),
                       (''method'', PStr ''failure'')])
       \<and> fst (analyze_new cl rt document collection l) =
           Inr (PDict [(''urheber'', PStr ''unbekannt''), (''confidence'', PInt 0),
                       (''method'', PStr ''failure''),
                       (''reason'', PStr ''Missing domain or TLD information.'')])
       \<and> (case fst (analyze an rt document collection l) of
             Inr res \<Rightarrow> field res ''domain'' = None | Inl e \<Rightarrow> False)
       \<and> (case fst (analyze_new cl rt document collection l) of
             Inr res \<Rightarrow> field res ''domain'' = None | Inl e \<Rightarrow> False)"
  by (simp add: analyze_invalid[OF assms] analyze_new_invalid[OF assms])

lemma sample_no_tld_info:
  "dict_get sample_document_no_tld ''domain_info'' (PDict []) =
     PDict [(''domain'', PStr ''localhost'')]"
  by (simp add: sample_document_no_tld_def dict_get_def)

lemma sample_no_tld_falsy:
  "\<not> truthy (dict_get [(''domain'', PStr ''localhost'')] ''domain'' (PStr [])) \<or>
   \<not> truthy (dict_get [(''domain'', PStr ''localhost'')] ''tld'' (PStr []))"
  by (simp add: dict_get_def)

theorem missing_domain_or_tld_is_failure_witness:
  "fst (analyze (sample_analyzer raising_client) sample_runtime sample_document_no_tld
          (Some sample_store) []) =
     Inr (PDict [(''urheber'', PStr ''unbekannt''), (''confidence'', PInt 0),
                 (''method'', PStr ''failure'')])
   \<and> fst (analyze_new raising_client sample_runtime sample_document_no_tld
          (Some sample_store) []) =
     Inr (PDict [(''urheber'', PStr ''unbekannt''), (''confidence'', PInt 0),
                 (''method'', PStr ''failure''),
                 (''reason'', PStr ''Missing domain or TLD information.'')])"
  using missing_domain_or_tld_is_failure
    [OF sample_no_tld_info sample_no_tld_falsy,
     of "sample_analyzer raising_client" sample_runtime "Some sample_store" "[]" raising_client]
  by simp

text \<open>
  On a document whose \<open>domain_info\<close> is \<open>None\<close>, where no \<open>domain\<close> and no \<open>tld\<close>
  can be read, both functions raise \<open>AttributeError\<close> and return no result at all.
\<close>

theorem none_domain_info_has_no_failure_result:
  "fst (analyze (sample_analyzer raising_client) sample_runtime sample_document_none
          (Some sample_store) []) =
     Inl (Exn ''AttributeError''
            (quoted ''NoneType'' @ '' object has no attribute '' @ quoted ''get''))
   \<and> fst (analyze_new raising_client sample_runtime sample_document_none
            (Some sample_store) []) =
     Inl (Exn ''AttributeError''
            (quoted ''NoneType'' @ '' object has no attribute '' @ quoted ''get''))"
proof -
  have none: "dict_get sample_document_none ''domain_info'' (PDict []) = PNone"
    by (simp add: sample_document_none_def dict_get_def)
  then have not_dict: "\<forall>di. dict_get sample_document_none ''domain_info'' (PDict []) \<noteq> PDict di"
    by simp
  show ?thesis
    by (simp add: analyze_not_dict[OF not_dict] analyze_new_not_dict[OF not_dict] none
          attribute_error_def)
qed

text \<open>
  Claim C10. For every document in which \<open>domain\<close> or \<open>tld\<close> is missing or empty,
  be its \<open>domain_info\<close> absent, a dictionary without a true \<open>domain\<close> or \<open>tld\<close>, or
  no dictionary at all, \<open>analyze\<close> of both files makes no external call, whether or
  not a store is supplied: the call log is returned unchanged, so neither the store nor
  the provider has been contacted.
\<close>

theorem validation_precedes_external_calls:
  assumes "lacks_domain_or_tld document"
  shows "snd (analyze an rt document collection l) = l
       \<and> snd (analyze_new cl rt document collection l) = l"
proof (cases "\<exists>di. dict_get document ''domain_info'' (PDict []) = PDict di")
  case True
  then obtain di where di: "dict_get document ''domain_info'' (PDict []) = PDict di" by blast
  with assms have
    "\<not> truthy (dict_get di ''domain'' (PStr [])) \<or> \<not> truthy (dict_get di ''tld'' (PStr []))"
    by (simp add: lacks_domain_or_tld_def)
  from analyze_invalid[OF di this] analyze_new_invalid[OF di this]
  show ?thesis by simp
next
  case False
  then have "\<forall>di. dict_get document ''domain_info'' (PDict []) \<noteq> PDict di" by blast
  from analyze_not_dict[OF this] analyze_new_not_dict[OF this]
  show ?thesis by simp
qed

theorem validation_precedes_external_calls_witness:
  "snd (analyze (sample_analyzer (answering_client answer_unternehmen)) sample_runtime
          sample_document_no_tld (Some sample_store) []) = []
   \<and> snd (analyze_new (answering_client answer_unternehmen) sample_runtime
          sample_document_no_tld (Some sample_store) []) = []
   \<and> snd (analyze (sample_analyzer (answering_client answer_unternehmen)) sample_runtime
          sample_document_none (Some sample_store) []) = []
   \<and> snd (analyze_new (answering_client answer_unternehmen) sample_runtime
          sample_document_none (Some sample_store) []) = []"
proof -
  have no_tld: "lacks_domain_or_tld sample_document_no_tld"
    by (simp add: lacks_domain_or_tld_def sample_document_no_tld_def dict_get_def)
  have none: "lacks_domain_or_tld sample_document_none"
    by (simp add: lacks_domain_or_tld_def sample_document_none_def dict_get_def)
  from validation_precedes_external_calls
         [OF no_tld, of "sample_analyzer (answering_client answer_unternehmen)" sample_runtime
            "Some sample_store" "[]" "answering_client answer_unternehmen"]
       validation_precedes_external_calls
         [OF none, of "sample_analyzer (answering_client answer_unternehmen)" sample_runtime
            "Some sample_store" "[]" "answering_client answer_unternehmen"]
  show ?thesis by simp
qed

lemma research_total:
  "\<exists>res l'. research_domain_with_web_search an rt domain url l = (Inr res, l')"
  using research_result_cases[of an rt domain url l] by blast

section \<open>A failing store\<close>

text \<open>
  Claim C5. For a store that raises on every query, the cache lookup of
  \<^verbatim>\<open>src/main.py\<close> catches the exception and returns \<open>None\<close>, \<open>analyze\<close> continues
  with the research path from the log holding that one store query and returns a result
  instead of raising; and the lookup never raises, whatever the store does.
\<close>

theorem store_failure_is_a_miss:
  assumes "dict_get document ''domain_info'' (PDict []) = PDict di"
      and "truthy (dict_get di ''domain'' (PStr []))"
      and "truthy (dict_get di ''tld'' (PStr []))"
      and "\<forall>l q p. isl (coll l q p)"
  shows "check_database_for_domain coll (full_domain rt di) l =
           (Inr PNone, l @ [FindOne (db_query (full_domain rt di)) db_projection])
       \<and> analyze an rt document (Some coll) l =
           research_domain_with_web_search an rt (full_domain rt di) (url_text rt document)
             (l @ [FindOne (db_query (full_domain rt di)) db_projection])
       \<and> (\<exists>res. fst (analyze an rt document (Some coll) l) = Inr res)
       \<and> (\<forall>store domain l0. \<exists>v. fst (check_database_for_domain store domain l0) = Inr v)"
proof -
  from assms(4) obtain e where e: "coll l (db_query (full_domain rt di)) db_projection = Inl e"
    by (metis sum.collapse(1))
  have lookup: "check_database_for_domain coll (full_domain rt di) l =
                  (Inr PNone, l @ [FindOne (db_query (full_domain rt di)) db_projection])"
    using check_database_raise[of coll l "full_domain rt di" e] e by simp
  have falls: "analyze an rt document (Some coll) l =
           research_domain_with_web_search an rt (full_domain rt di) (url_text rt document)
             (l @ [FindOne (db_query (full_domain rt di)) db_projection])"
    by (simp add: analyze_valid[OF assms(1-3)] lookup)
  have returns: "\<exists>res. fst (analyze an rt document (Some coll) l) = Inr res"
    using research_total[of an rt "full_domain rt di" "url_text rt document"
                            "l @ [FindOne (db_query (full_domain rt di)) db_projection]"]
    by (auto simp add: falls)
  have never: "\<forall>store domain l0. \<exists>v. fst (check_database_for_domain store domain l0) = Inr v"
  proof (intro allI)
    fix store :: collection and domain l0
    from check_database_total[of store domain l0]
    show "\<exists>v. fst (check_database_for_domain store domain l0) = Inr v" by auto
  qed
  from lookup falls returns never show ?thesis by blast
qed

lemma sample_store_raising_always: "\<forall>l q p. isl (sample_store_raising l q p)"
  by (simp add: sample_store_raising_def)

theorem store_failure_is_a_miss_witness:
  "check_database_for_domain sample_store_raising ''example.org'' [] =
     (Inr PNone, [FindOne (db_query ''example.org'') db_projection])
   \<and> analyze (sample_analyzer (answering_client answer_unternehmen)) sample_runtime
        sample_document (Some sample_store_raising) [] =
     research_domain_with_web_search (sample_analyzer (answering_client answer_unternehmen))
        sample_runtime ''example.org'' ''https://help.example.org/x''
        [FindOne (db_query ''example.org'') db_projection]"
  using store_failure_is_a_miss
    [OF sample_document_info sample_truthy sample_store_raising_always,
     of sample_runtime "[]" "sample_analyzer (answering_client answer_unternehmen)"]
  by (simp add: sample_full_domain sample_url_text)

lemma analyze_result_cases:
  assumes "fst (analyze an rt document collection l) = Inr res"
  shows "res = PDict [(''urheber'', PStr ''unbekannt''), (''confidence'', PInt 0),
                      (''method'', PStr ''failure'')]
       \<or> (\<exists>v dm. res = database_hit v dm)
       \<or> (\<exists>dm e. res = research_error dm e)
       \<or> (\<exists>d dm. res = web_search_result d dm)"
proof (cases "\<exists>di. dict_get document ''domain_info'' (PDict []) = PDict di")
  case False
  then show ?thesis using assms by (simp add: analyze_not_dict)
next
  case True
  then obtain di where di: "dict_get document ''domain_info'' (PDict []) = PDict di" by blast
  show ?thesis
  proof (cases "truthy (dict_get di ''domain'' (PStr [])) \<and> truthy (dict_get di ''tld'' (PStr []))")
    case False
    then have "\<not> truthy (dict_get di ''domain'' (PStr [])) \<or> \<not> truthy (dict_get di ''tld'' (PStr []))"
      by blast
    from analyze_invalid[OF di this] assms show ?thesis by simp
  next
    case True
    then have t1: "truthy (dict_get di ''domain'' (PStr []))"
          and t2: "truthy (dict_get di ''tld'' (PStr []))" by blast+
    note unfold = analyze_valid[OF di t1 t2, of an rt collection l]
    show ?thesis
    proof (cases collection)
      case None
      from research_result_cases[of an rt "full_domain rt di" "url_text rt document" l]
      obtain r l' where
        run: "research_domain_with_web_search an rt (full_domain rt di)
                (url_text rt document) l = (Inr r, l')" and
        shape: "(\<exists>e. r = research_error (full_domain rt di) e) \<or>
                (\<exists>d. r = web_search_result d (full_domain rt di))"
        by blast
      from unfold None run assms have "res = r" by simp
      with shape show ?thesis by blast
    next
      case (Some coll)
      from check_database_total[of coll "full_domain rt di" l]
      obtain v where v: "check_database_for_domain coll (full_domain rt di) l =
          (Inr v, l @ [FindOne (db_query (full_domain rt di)) db_projection])" by blast
      show ?thesis
      proof (cases "truthy v")
        case True
        with unfold Some v assms have "res = database_hit v (full_domain rt di)" by simp
        then show ?thesis by blast
      next
        case False
        from research_result_cases[of an rt "full_domain rt di" "url_text rt document"
            "l @ [FindOne (db_query (full_domain rt di)) db_projection]"]
        obtain r l' where
          run: "research_domain_with_web_search an rt (full_domain rt di)
                  (url_text rt document)
                  (l @ [FindOne (db_query (full_domain rt di)) db_projection]) = (Inr r, l')" and
          shape: "(\<exists>e. r = research_error (full_domain rt di) e) \<or>
                  (\<exists>d. r = web_search_result d (full_domain rt di))"
          by blast
        from unfold Some v False run assms have "res = r" by simp
        with shape show ?thesis by blast
      qed
    qed
  qed
qed

lemma analyze_new_result_cases:
  assumes "fst (analyze_new cl rt document collection l) = Inr res"
  shows "res = PDict [(''urheber'', PStr ''unbekannt''), (''confidence'', PInt 0),
                      (''method'', PStr ''failure''),
                      (''reason'', PStr ''Missing domain or TLD information.'')]
       \<or> (\<exists>dm e. res = research_error dm e)
       \<or> (\<exists>d dm. res = responses_result d dm)"
proof (cases "\<exists>di. dict_get document ''domain_info'' (PDict []) = PDict di")
  case False
  then show ?thesis using assms by (simp add: analyze_new_not_dict)
next
  case True
  then obtain di where di: "dict_get document ''domain_info'' (PDict []) = PDict di" by blast
  show ?thesis
  proof (cases "truthy (dict_get di ''domain'' (PStr [])) \<and> truthy (dict_get di ''tld'' (PStr []))")
    case False
    then have "\<not> truthy (dict_get di ''domain'' (PStr [])) \<or> \<not> truthy (dict_get di ''tld'' (PStr []))"
      by blast
    from analyze_new_invalid[OF di this] assms show ?thesis by simp
  next
    case True
    then have t1: "truthy (dict_get di ''domain'' (PStr []))"
          and t2: "truthy (dict_get di ''tld'' (PStr []))" by blast+
    from assms show ?thesis
      unfolding analyze_new_valid[OF di t1 t2]
      by (simp split: sum.splits pyval.splits) blast+
  qed
qed

lemma read_failure:
  "confidence_of (PDict [(''urheber'', PStr ''unbekannt''), (''confidence'', PInt 0),
                         (''method'', PStr ''failure'')]) = Some 0"
  "method_of (PDict [(''urheber'', PStr ''unbekannt''), (''confidence'', PInt 0),
                     (''method'', PStr ''failure'')]) = Some ''failure''"
  "confidence_of (PDict [(''urheber'', PStr ''unbekannt''), (''confidence'', PInt 0),
                         (''method'', PStr ''failure''), (''reason'', x)]) = Some 0"
  "method_of (PDict [(''urheber'', PStr ''unbekannt''), (''confidence'', PInt 0),
                     (''method'', PStr ''failure''), (''reason'', x)]) = Some ''failure''"
  by (simp_all add: confidence_of_def method_of_def)

lemma read_database_hit:
  "confidence_of (database_hit v dm) = Some 1"
  "method_of (database_hit v dm) = Some ''database''"
  "field (database_hit v dm) ''urheber'' = Some v"
  "field (database_hit v dm) ''domain'' = Some (PStr dm)"
  by (simp_all add: confidence_of_def method_of_def database_hit_def)

lemma read_research_error:
  "confidence_of (research_error dm e) = Some 0"
  "method_of (research_error dm e) = Some ''error''"
  "field (research_error dm e) ''urheber'' = Some (PStr ''unbekannt'')"
  "field (research_error dm e) ''error'' = Some (PStr (exn_str e))"
  "field (research_error dm e) ''domain'' = Some (PStr dm)"
  by (simp_all add: confidence_of_def method_of_def research_error_def)

lemma read_web_search_result:
  "confidence_of (web_search_result d dm) = Some 0.8"
  "method_of (web_search_result d dm) = Some ''web_search''"
  "field (web_search_result d dm) ''domain'' = Some (PStr dm)"
  "k \<noteq> ''method'' \<Longrightarrow> k \<noteq> ''confidence'' \<Longrightarrow> k \<noteq> ''domain'' \<Longrightarrow>
     field (web_search_result d dm) k = map_of d k"
  by (simp_all add: confidence_of_def method_of_def web_search_result_def update_conv')

lemma read_responses_result:
  "confidence_of (responses_result d dm) = Some 0.9"
  "method_of (responses_result d dm) = Some ''responses_api_web_search''"
  "field (responses_result d dm) ''domain'' = Some (PStr dm)"
  "k \<noteq> ''method'' \<Longrightarrow> k \<noteq> ''confidence'' \<Longrightarrow> k \<noteq> ''domain'' \<Longrightarrow>
     field (responses_result d dm) k = map_of d k"
  by (simp_all add: confidence_of_def method_of_def responses_result_def update_conv')

section \<open>Confidence and method\<close>

text \<open>
  Claim C2, as the code has it. In every result of \<open>analyze\<close>: the confidence is
  \<open>1.0\<close> exactly when the method is \<open>database\<close>; it is the fixed constant \<open>0.8\<close>
  exactly when the method is \<open>web_search\<close> in \<^verbatim>\<open>src/main.py\<close>, and \<open>0.9\<close> exactly
  when the method is \<open>responses_api_web_search\<close> in \<^verbatim>\<open>src/new.py\<close>; it is \<open>0\<close>
  exactly when the method is \<open>failure\<close> or \<open>error\<close>; and when the method is
  \<open>failure\<close> or \<open>error\<close> the \<open>urheber\<close> is \<open>unbekannt\<close>.
\<close>

theorem confidence_determined_by_method:
  "(fst (analyze an rt document collection l) = Inr res \<longrightarrow>
      (confidence_of res = Some 1 \<longleftrightarrow> method_of res = Some ''database'') \<and>
      (confidence_of res = Some 0.8 \<longleftrightarrow> method_of res = Some ''web_search'') \<and>
      (confidence_of res = Some 0 \<longleftrightarrow>
         method_of res = Some ''failure'' \<or> method_of res = Some ''error'') \<and>
      (method_of res = Some ''failure'' \<or> method_of res = Some ''error'' \<longrightarrow>
         field res ''urheber'' = Some (PStr ''unbekannt'')))
 \<and> (fst (analyze_new cl rt document collection l) = Inr res' \<longrightarrow>
      (confidence_of res' = Some 1 \<longleftrightarrow> method_of res' = Some ''database'') \<and>
      (confidence_of res' = Some 0.9 \<longleftrightarrow> method_of res' = Some ''responses_api_web_search'') \<and>
      (confidence_of res' = Some 0 \<longleftrightarrow>
         method_of res' = Some ''failure'' \<or> method_of res' = Some ''error'') \<and>
      (method_of res' = Some ''failure'' \<or> method_of res' = Some ''error'' \<longrightarrow>
         field res' ''urheber'' = Some (PStr ''unbekannt'')))"
proof (intro conjI impI)
  assume a: "fst (analyze an rt document collection l) = Inr res"
  note shapes = analyze_result_cases[OF a]
  show "confidence_of res = Some 1 \<longleftrightarrow> method_of res = Some ''database''"
    using shapes
    by (auto simp add: read_failure read_database_hit read_research_error read_web_search_result)
  show "confidence_of res = Some 0.8 \<longleftrightarrow> method_of res = Some ''web_search''"
    using shapes
    by (auto simp add: read_failure read_database_hit read_research_error read_web_search_result)
  show "confidence_of res = Some 0 \<longleftrightarrow>
          method_of res = Some ''failure'' \<or> method_of res = Some ''error''"
    using shapes
    by (auto simp add: read_failure read_database_hit read_research_error read_web_search_result)
next
  assume a: "fst (analyze an rt document collection l) = Inr res"
     and m: "method_of res = Some ''failure'' \<or> method_of res = Some ''error''"
  from analyze_result_cases[OF a] m
  show "field res ''urheber'' = Some (PStr ''unbekannt'')"
    by (auto simp add: read_failure read_database_hit read_research_error read_web_search_result)
next
  assume a: "fst (analyze_new cl rt document collection l) = Inr res'"
  note shapes = analyze_new_result_cases[OF a]
  show "confidence_of res' = Some 1 \<longleftrightarrow> method_of res' = Some ''database''"
    using shapes
    by (auto simp add: read_failure read_research_error read_responses_result)
  show "confidence_of res' = Some 0.9 \<longleftrightarrow> method_of res' = Some ''responses_api_web_search''"
    using shapes
    by (auto simp add: read_failure read_research_error read_responses_result)
  show "confidence_of res' = Some 0 \<longleftrightarrow>
          method_of res' = Some ''failure'' \<or> method_of res' = Some ''error''"
    using shapes
    by (auto simp add: read_failure read_research_error read_responses_result)
next
  assume a: "fst (analyze_new cl rt document collection l) = Inr res'"
     and m: "method_of res' = Some ''failure'' \<or> method_of res' = Some ''error''"
  from analyze_new_result_cases[OF a] m
  show "field res' ''urheber'' = Some (PStr ''unbekannt'')"
    by (auto simp add: read_failure read_research_error read_responses_result)
qed

lemma sample_json_loads_texts:
  "sample_json_loads answer_unternehmen =
     Inr (PDict [(''urheber'', PStr ''Unternehmen''), (key_begruendung, PStr ''Impressum''),
                 (''quellen'', PList [PStr ''https://example.org/impressum''])])"
  "sample_json_loads answer_bank = Inr (PDict [(''urheber'', PStr ''Bank'')])"
  "sample_json_loads answer_unbekannt = Inr (PDict [(''urheber'', PStr ''unbekannt'')])"
  "sample_json_loads answer_empty_object = Inr (PDict [])"
  "sample_json_loads answer_category_only = Inr (PDict [(''urheber'', PStr ''Unternehmen'')])"
  "sample_json_loads tool_arguments = Inr (PDict [(''query'', PStr ''example.org'')])"
  "sample_json_loads answer_not_json =
     Inl (Exn ''JSONDecodeError'' ''Expecting value: line 1 column 1 (char 0)'')"
  by (simp_all add: sample_json_loads_def answer_unternehmen_def answer_bank_def
        answer_unbekannt_def answer_empty_object_def answer_category_only_def
        tool_arguments_def answer_not_json_def)

lemma sample_research_classify:
  "research_classify (sample_analyzer (answering_client text)) sample_runtime domain url l =
     (sample_json_loads text,
      l @ [ChatCreate (search_request domain url),
           ChatCreate (results_request domain url
              \<lparr> msg_content = None,
                msg_tool_calls = Some [\<lparr> tc_id = ''call_1'', tc_arguments = tool_arguments \<rparr>] \<rparr>
              \<lparr> tc_id = ''call_1'', tc_arguments = tool_arguments \<rparr>),
           ChatCreate (classification_request domain (Some text) url)])"
  by (simp add: research_classify_def sample_analyzer_def answering_client_def
        ebind_def lift_def ret_def call_def sample_runtime_sel sample_json_loads_texts
        sample_process_response_def search_request_def results_request_def
        classification_request_def)

lemma sample_analyze_new:
  "fst (analyze_new (answering_client text) sample_runtime sample_document collection l) =
     (case sample_json_loads text of
        Inl e \<Rightarrow> Inr (research_error ''example.org'' e)
      | Inr (PDict d) \<Rightarrow> Inr (responses_result d ''example.org'')
      | Inr v \<Rightarrow> Inr (research_error ''example.org'' (attribute_error v ''update'')))"
  unfolding analyze_new_valid[OF sample_document_info sample_truthy] sample_full_domain
  by (simp add: answering_client_def sample_runtime_sel)

lemma sample_analyze_hit:
  "fst (analyze an sample_runtime sample_document (Some sample_store_unbekannt) l) =
     Inr (database_hit (PStr ''unbekannt'') ''example.org'')"
proof -
  have "check_database_for_domain sample_store_unbekannt ''example.org'' l =
          (Inr (PStr ''unbekannt''), l @ [FindOne (db_query ''example.org'') db_projection])"
    using check_database_hit[of sample_store_unbekannt l "''example.org''"
            "[(''urheber'', PStr ''unbekannt'')]" "PStr ''unbekannt''"]
    by (simp add: sample_store_unbekannt_def)
  then show ?thesis
    by (simp add: analyze_valid[OF sample_document_info sample_truthy] sample_full_domain)
qed

theorem confidence_determined_by_method_witness:
  "fst (analyze (sample_analyzer raising_client) sample_runtime sample_document
          (Some sample_store_unbekannt) []) =
     Inr (database_hit (PStr ''unbekannt'') ''example.org'')
 \<and> confidence_of (database_hit (PStr ''unbekannt'') ''example.org'') = Some 1
 \<and> method_of (database_hit (PStr ''unbekannt'') ''example.org'') = Some ''database''
 \<and> fst (analyze_new raising_client sample_runtime sample_document
          (Some sample_store_unbekannt) []) =
     Inr (research_error ''example.org'' (Exn ''Exception'' []))
 \<and> method_of (research_error ''example.org'' (Exn ''Exception'' [])) = Some ''error''
 \<and> confidence_of (research_error ''example.org'' (Exn ''Exception'' [])) = Some 0
 \<and> field (research_error ''example.org'' (Exn ''Exception'' [])) ''urheber'' =
      Some (PStr ''unbekannt'')"
proof -
  have main_run:
    "fst (analyze (sample_analyzer raising_client) sample_runtime sample_document
            (Some sample_store_unbekannt) []) =
       Inr (database_hit (PStr ''unbekannt'') ''example.org'')"
    by (rule sample_analyze_hit)
  have new_run:
    "fst (analyze_new raising_client sample_runtime sample_document
            (Some sample_store_unbekannt) []) =
       Inr (research_error ''example.org'' (Exn ''Exception'' []))"
    unfolding analyze_new_valid[OF sample_document_info sample_truthy] sample_full_domain
    by (simp add: raising_client_def)
  have is_database:
    "method_of (database_hit (PStr ''unbekannt'') ''example.org'') = Some ''database''"
    by (simp add: method_of_def database_hit_def)
  have is_error:
    "method_of (research_error ''example.org'' (Exn ''Exception'' [])) = Some ''error''"
    by (simp add: method_of_def research_error_def)
  from main_run new_run is_database is_error show ?thesis
    using confidence_determined_by_method
      [of "sample_analyzer raising_client" sample_runtime sample_document
          "Some sample_store_unbekannt" "[]"
          "database_hit (PStr ''unbekannt'') ''example.org''"
          raising_client "research_error ''example.org'' (Exn ''Exception'' [])"]
    by blast
qed

lemma sample_analyze_research:
  "analyze (sample_analyzer (answering_client text)) sample_runtime sample_document None l =
     research_domain_with_web_search (sample_analyzer (answering_client text)) sample_runtime
       ''example.org'' ''https://help.example.org/x'' l"
  by (simp add: analyze_valid[OF sample_document_info sample_truthy] sample_full_domain
        sample_url_text)

lemma sample_analyze_research_dict:
  assumes "sample_json_loads text = Inr (PDict d)"
  shows "fst (analyze (sample_analyzer (answering_client text)) sample_runtime sample_document
                None l) = Inr (web_search_result d ''example.org'')"
proof -
  note run = sample_research_classify[of "text" "''example.org''"
               "''https://help.example.org/x''" l, unfolded assms]
  from research_after_classify[OF run] show ?thesis
    by (simp add: sample_analyze_research)
qed

text \<open>
  The last equivalence of claim C2 fails on a stored \<open>unbekannt\<close>: the example document with
  a store holding \<open>{"urheber": "unbekannt"}\<close> for \<open>example.org\<close> gives
  \<open>urheber = unbekannt\<close> with \<open>method = database\<close> and confidence \<open>1.0\<close>; and a
  successful research is labelled \<open>web_search\<close>, not \<open>research\<close>.
\<close>

theorem unbekannt_with_method_database:
  "fst (analyze (sample_analyzer raising_client) sample_runtime sample_document
          (Some sample_store_unbekannt) []) =
     Inr (PDict [(''urheber'', PStr ''unbekannt''), (''confidence'', PFloat 1.0),
                 (''method'', PStr ''database''), (''domain'', PStr ''example.org'')])
   \<and> fst (analyze (sample_analyzer (answering_client answer_category_only)) sample_runtime
            sample_document None []) =
     Inr (PDict [(''urheber'', PStr ''Unternehmen''), (''method'', PStr ''web_search''),
                 (''confidence'', PFloat 0.8), (''domain'', PStr ''example.org'')])"
  by (simp add: sample_analyze_hit database_hit_def
        sample_analyze_research_dict[OF sample_json_loads_texts(5)] web_search_result_def)

section \<open>A successful research\<close>

text \<open>
  Claim C3, as the code has it. For a document with a true \<open>domain\<close> and \<open>tld\<close>:
  in \<^verbatim>\<open>src/main.py\<close>, when the cache step ends without a hit and the research
  requests end with \<open>_process_response\<close> returning a dictionary \<open>d\<close>, \<open>analyze\<close>
  returns \<open>d\<close> with \<open>method = web_search\<close>, \<open>confidence = 0.8\<close> and \<open>domain\<close> the
  full domain written into it; in \<^verbatim>\<open>src/new.py\<close>, when the provider answers and
  \<open>json.loads\<close> returns a dictionary \<open>d'\<close>, \<open>analyze\<close> returns \<open>d'\<close> with
  \<open>method = responses_api_web_search\<close>, \<open>confidence = 0.9\<close> and \<open>domain\<close>
  written into it. Every other key, the category, the justification and the sources among
  them, is in the result exactly as the parsed answer has it.
\<close>

theorem research_success_result:
  assumes "dict_get document ''domain_info'' (PDict []) = PDict di"
      and "truthy (dict_get di ''domain'' (PStr []))"
      and "truthy (dict_get di ''tld'' (PStr []))"
  shows "(cache_miss collection (full_domain rt di) l l1 \<and>
          research_classify an rt (full_domain rt di) (url_text rt document) l1 =
            (Inr (PDict d), l2)
          \<longrightarrow> analyze an rt document collection l =
                (Inr (web_search_result d (full_domain rt di)), l2))
       \<and> (responses_create cl l (urheber_request (full_domain rt di) (url_text rt document)) =
            Inr response \<and>
          json_loads rt (output_text response) = Inr (PDict d')
          \<longrightarrow> fst (analyze_new cl rt document collection l) =
                Inr (responses_result d' (full_domain rt di)))
       \<and> method_of (web_search_result d (full_domain rt di)) = Some ''web_search''
       \<and> confidence_of (web_search_result d (full_domain rt di)) = Some 0.8
       \<and> field (web_search_result d (full_domain rt di)) ''domain'' =
            Some (PStr (full_domain rt di))
       \<and> (\<forall>k. k \<noteq> ''method'' \<and> k \<noteq> ''confidence'' \<and> k \<noteq> ''domain'' \<longrightarrow>
              field (web_search_result d (full_domain rt di)) k = map_of d k)
       \<and> method_of (responses_result d' (full_domain rt di)) = Some ''responses_api_web_search''
       \<and> confidence_of (responses_result d' (full_domain rt di)) = Some 0.9
       \<and> field (responses_result d' (full_domain rt di)) ''domain'' =
            Some (PStr (full_domain rt di))
       \<and> (\<forall>k. k \<noteq> ''method'' \<and> k \<noteq> ''confidence'' \<and> k \<noteq> ''domain'' \<longrightarrow>
              field (responses_result d' (full_domain rt di)) k = map_of d' k)"
proof -
  have main_part:
    "cache_miss collection (full_domain rt di) l l1 \<and>
     research_classify an rt (full_domain rt di) (url_text rt document) l1 = (Inr (PDict d), l2)
     \<longrightarrow> analyze an rt document collection l =
           (Inr (web_search_result d (full_domain rt di)), l2)"
  proof (intro impI, elim conjE)
    assume miss: "cache_miss collection (full_domain rt di) l l1"
       and run: "research_classify an rt (full_domain rt di) (url_text rt document) l1 =
                   (Inr (PDict d), l2)"
    show "analyze an rt document collection l =
            (Inr (web_search_result d (full_domain rt di)), l2)"
      using research_after_classify[OF run]
      by (simp add: analyze_miss[OF assms miss])
  qed
  have new_part:
    "responses_create cl l (urheber_request (full_domain rt di) (url_text rt document)) =
       Inr response \<and>
     json_loads rt (output_text response) = Inr (PDict d')
     \<longrightarrow> fst (analyze_new cl rt document collection l) =
           Inr (responses_result d' (full_domain rt di))"
    by (simp add: analyze_new_valid[OF assms])
  from main_part new_part show ?thesis
    by (simp add: read_web_search_result read_responses_result)
qed

theorem research_success_result_witness:
  "analyze (sample_analyzer (answering_client answer_unternehmen)) sample_runtime
       sample_document None [] =
     (Inr (web_search_result
            [(''urheber'', PStr ''Unternehmen''), (key_begruendung, PStr ''Impressum''),
             (''quellen'', PList [PStr ''https://example.org/impressum''])] ''example.org''),
      [ChatCreate (search_request ''example.org'' ''https://help.example.org/x''),
       ChatCreate (results_request ''example.org'' ''https://help.example.org/x''
          \<lparr> msg_content = None,
            msg_tool_calls = Some [\<lparr> tc_id = ''call_1'', tc_arguments = tool_arguments \<rparr>] \<rparr>
          \<lparr> tc_id = ''call_1'', tc_arguments = tool_arguments \<rparr>),
       ChatCreate (classification_request ''example.org'' (Some answer_unternehmen)
          ''https://help.example.org/x'')])
   \<and> fst (analyze_new (answering_client answer_unternehmen) sample_runtime
            sample_document None []) =
     Inr (responses_result
            [(''urheber'', PStr ''Unternehmen''), (key_begruendung, PStr ''Impressum''),
             (''quellen'', PList [PStr ''https://example.org/impressum''])] ''example.org'')
   \<and> field (web_search_result
            [(''urheber'', PStr ''Unternehmen''), (key_begruendung, PStr ''Impressum''),
             (''quellen'', PList [PStr ''https://example.org/impressum''])] ''example.org'')
        ''quellen'' = Some (PList [PStr ''https://example.org/impressum''])"
proof -
  have key: "''quellen'' \<noteq> ''method'' \<and> ''quellen'' \<noteq> ''confidence'' \<and>
             ''quellen'' \<noteq> ''domain''"
    by simp
  have stored: "map_of [(''urheber'', PStr ''Unternehmen''), (key_begruendung, PStr ''Impressum''),
                        (''quellen'', PList [PStr ''https://example.org/impressum''])]
                  ''quellen'' = Some (PList [PStr ''https://example.org/impressum''])"
    by (simp add: key_begruendung_def)
  have miss: "cache_miss None ''example.org'' [] []"
    by (simp add: cache_miss_def)
  have run: "research_classify (sample_analyzer (answering_client answer_unternehmen))
               sample_runtime ''example.org'' ''https://help.example.org/x'' [] =
     (Inr (PDict [(''urheber'', PStr ''Unternehmen''), (key_begruendung, PStr ''Impressum''),
                  (''quellen'', PList [PStr ''https://example.org/impressum''])]),
      [ChatCreate (search_request ''example.org'' ''https://help.example.org/x''),
       ChatCreate (results_request ''example.org'' ''https://help.example.org/x''
          \<lparr> msg_content = None,
            msg_tool_calls = Some [\<lparr> tc_id = ''call_1'', tc_arguments = tool_arguments \<rparr>] \<rparr>
          \<lparr> tc_id = ''call_1'', tc_arguments = tool_arguments \<rparr>),
       ChatCreate (classification_request ''example.org'' (Some answer_unternehmen)
          ''https://help.example.org/x'')])"
    by (simp add: sample_research_classify sample_json_loads_texts)
  have answer: "responses_create (answering_client answer_unternehmen) []
                  (urheber_request ''example.org'' ''https://help.example.org/x'') =
                Inr \<lparr> output_text = answer_unternehmen \<rparr>"
    by (simp add: answering_client_def)
  have parsed: "json_loads sample_runtime (output_text \<lparr> output_text = answer_unternehmen \<rparr>) =
     Inr (PDict [(''urheber'', PStr ''Unternehmen''), (key_begruendung, PStr ''Impressum''),
                 (''quellen'', PList [PStr ''https://example.org/impressum''])])"
    by (simp add: sample_runtime_sel sample_json_loads_texts)
  show ?thesis
    using research_success_result
      [OF sample_document_info sample_truthy,
       of None sample_runtime "[]" "[]"
          "sample_analyzer (answering_client answer_unternehmen)"
          "[(''urheber'', PStr ''Unternehmen''), (key_begruendung, PStr ''Impressum''),
            (''quellen'', PList [PStr ''https://example.org/impressum''])]"
          _ "answering_client answer_unternehmen" "\<lparr> output_text = answer_unternehmen \<rparr>"
          "[(''urheber'', PStr ''Unternehmen''), (key_begruendung, PStr ''Impressum''),
            (''quellen'', PList [PStr ''https://example.org/impressum''])]"]
      miss run answer parsed key stored
    unfolding sample_full_domain sample_url_text
    by metis
qed

text \<open>
  With the valid category \<open>Unternehmen\<close> and nothing else in the provider's answer, the
  result of both files has no justification and no sources, and its method is not
  \<open>research\<close>.
\<close>

theorem research_result_without_justification:
  "fst (analyze (sample_analyzer (answering_client answer_category_only)) sample_runtime
          sample_document None []) =
     Inr (PDict [(''urheber'', PStr ''Unternehmen''), (''method'', PStr ''web_search''),
                 (''confidence'', PFloat 0.8), (''domain'', PStr ''example.org'')])
   \<and> fst (analyze_new (answering_client answer_category_only) sample_runtime
            sample_document None []) =
     Inr (PDict [(''urheber'', PStr ''Unternehmen''),
                 (''method'', PStr ''responses_api_web_search''),
                 (''confidence'', PFloat 0.9), (''domain'', PStr ''example.org'')])"
  by (simp add: sample_analyze_research_dict[OF sample_json_loads_texts(5)]
        web_search_result_def sample_analyze_new sample_json_loads_texts responses_result_def)

lemma research_body_raise:
  assumes "fst (research_body an rt domain url l) = Inl e"
  shows "fst (research_domain_with_web_search an rt domain url l) =
           Inr (research_error domain e)"
  using assms
  by (cases "research_body an rt domain url l")
     (simp add: research_domain_with_web_search_def catch_def ret_def)

section \<open>A failing research\<close>

text \<open>
  Claim C6, as the code has it. For a document with a true \<open>domain\<close> and \<open>tld\<close>:
  in \<^verbatim>\<open>src/main.py\<close>, when the cache step ends without a hit and anything inside
  the \<open>try\<close> block of the research raises an exception \<open>e\<close>, and in
  \<^verbatim>\<open>src/new.py\<close>, when the provider call raises \<open>e\<close> or \<open>json.loads\<close> raises
  \<open>e\<close> on the provider's text, \<open>analyze\<close> returns \<open>urheber = unbekannt\<close>,
  \<open>confidence = 0\<close>, \<open>method = error\<close>, \<open>domain\<close> the full domain and
  \<open>error = str(e)\<close>, which is the empty text when the exception carries no message.
\<close>

theorem research_failure_result:
  assumes "dict_get document ''domain_info'' (PDict []) = PDict di"
      and "truthy (dict_get di ''domain'' (PStr []))"
      and "truthy (dict_get di ''tld'' (PStr []))"
  shows "(cache_miss collection (full_domain rt di) l l1 \<and>
          fst (research_body an rt (full_domain rt di) (url_text rt document) l1) = Inl e
          \<longrightarrow> fst (analyze an rt document collection l) =
                Inr (research_error (full_domain rt di) e))
       \<and> (responses_create cl l (urheber_request (full_domain rt di) (url_text rt document)) =
            Inl e'
          \<longrightarrow> fst (analyze_new cl rt document collection l) =
                Inr (research_error (full_domain rt di) e'))
       \<and> (responses_create cl l (urheber_request (full_domain rt di) (url_text rt document)) =
            Inr response \<and>
          json_loads rt (output_text response) = Inl e''
          \<longrightarrow> fst (analyze_new cl rt document collection l) =
                Inr (research_error (full_domain rt di) e''))
       \<and> (\<forall>x. research_error (full_domain rt di) x =
              PDict [(''urheber'', PStr ''unbekannt''), (''confidence'', PInt 0),
                     (''method'', PStr ''error''), (''error'', PStr (exn_str x)),
                     (''domain'', PStr (full_domain rt di))])"
proof -
  have main_part:
    "cache_miss collection (full_domain rt di) l l1 \<and>
     fst (research_body an rt (full_domain rt di) (url_text rt document) l1) = Inl e
     \<longrightarrow> fst (analyze an rt document collection l) =
           Inr (research_error (full_domain rt di) e)"
  proof (intro impI, elim conjE)
    assume miss: "cache_miss collection (full_domain rt di) l l1"
       and raised: "fst (research_body an rt (full_domain rt di) (url_text rt document) l1) =
                      Inl e"
    show "fst (analyze an rt document collection l) =
            Inr (research_error (full_domain rt di) e)"
      using research_body_raise[OF raised] by (simp add: analyze_miss[OF assms miss])
  qed
  have new_parts:
    "responses_create cl l (urheber_request (full_domain rt di) (url_text rt document)) = Inl e'
       \<longrightarrow> fst (analyze_new cl rt document collection l) =
             Inr (research_error (full_domain rt di) e')"
    "responses_create cl l (urheber_request (full_domain rt di) (url_text rt document)) =
       Inr response \<and> json_loads rt (output_text response) = Inl e''
       \<longrightarrow> fst (analyze_new cl rt document collection l) =
             Inr (research_error (full_domain rt di) e'')"
    by (simp_all add: analyze_new_valid[OF assms])
  from main_part new_parts show ?thesis
    by (simp add: research_error_def)
qed

lemma raising_research_body:
  "fst (research_body (sample_analyzer raising_client) sample_runtime domain url l) =
     Inl (Exn ''Exception'' [])"
  by (simp add: research_body_def research_classify_def sample_analyzer_def raising_client_def
        ebind_def call_def)

theorem research_failure_result_witness:
  "fst (analyze (sample_analyzer raising_client) sample_runtime sample_document None []) =
     Inr (research_error ''example.org'' (Exn ''Exception'' []))
   \<and> fst (analyze_new raising_client sample_runtime sample_document None []) =
     Inr (research_error ''example.org'' (Exn ''Exception'' []))
   \<and> fst (analyze_new (answering_client answer_not_json) sample_runtime sample_document
            None []) =
     Inr (research_error ''example.org''
            (Exn ''JSONDecodeError'' ''Expecting value: line 1 column 1 (char 0)''))"
proof -
  have miss: "cache_miss None ''example.org'' [] []"
    by (simp add: cache_miss_def)
  have raised: "responses_create raising_client []
                  (urheber_request ''example.org'' ''https://help.example.org/x'') =
                Inl (Exn ''Exception'' [])"
    by (simp add: raising_client_def)
  have answer: "responses_create (answering_client answer_not_json) []
                  (urheber_request ''example.org'' ''https://help.example.org/x'') =
                Inr \<lparr> output_text = answer_not_json \<rparr>"
    by (simp add: answering_client_def)
  have malformed: "json_loads sample_runtime (output_text \<lparr> output_text = answer_not_json \<rparr>) =
                     Inl (Exn ''JSONDecodeError'' ''Expecting value: line 1 column 1 (char 0)'')"
    by (simp add: sample_runtime_sel sample_json_loads_texts)
  note first = research_failure_result
      [OF sample_document_info sample_truthy,
       of None sample_runtime "[]" "[]" "sample_analyzer raising_client"
          "Exn ''Exception'' []" raising_client "Exn ''Exception'' []",
       unfolded sample_full_domain sample_url_text]
  note second = research_failure_result
      [OF sample_document_info sample_truthy,
       of None sample_runtime "[]" "[]" "sample_analyzer raising_client"
          "Exn ''Exception'' []" "answering_client answer_not_json" _
          "\<lparr> output_text = answer_not_json \<rparr>"
          "Exn ''JSONDecodeError'' ''Expecting value: line 1 column 1 (char 0)''",
       unfolded sample_full_domain sample_url_text]
  from first miss raising_research_body raised second answer malformed
  show ?thesis by blast
qed

text \<open>
  A provider call that raises an exception without a message, as \<open>raise Exception()\<close>
  does, gives an empty \<open>error\<close> field.
\<close>

theorem empty_error_text:
  "fst (analyze_new raising_client sample_runtime sample_document None []) =
     Inr (PDict [(''urheber'', PStr ''unbekannt''), (''confidence'', PInt 0),
                 (''method'', PStr ''error''), (''error'', PStr []),
                 (''domain'', PStr ''example.org'')])
   \<and> fst (analyze (sample_analyzer raising_client) sample_runtime sample_document None []) =
     Inr (PDict [(''urheber'', PStr ''unbekannt''), (''confidence'', PInt 0),
                 (''method'', PStr ''error''), (''error'', PStr []),
                 (''domain'', PStr ''example.org'')])"
proof -
  have "fst (analyze_new raising_client sample_runtime sample_document None []) =
          Inr (research_error ''example.org'' (Exn ''Exception'' []))"
    unfolding analyze_new_valid[OF sample_document_info sample_truthy] sample_full_domain
    by (simp add: raising_client_def)
  moreover
  have "fst (analyze (sample_analyzer raising_client) sample_runtime sample_document None []) =
          Inr (research_error ''example.org'' (Exn ''Exception'' []))"
    using research_body_raise[OF raising_research_body,
            of "''example.org''" "''https://help.example.org/x''" "[]"]
    by (simp add: analyze_valid[OF sample_document_info sample_truthy] sample_full_domain
          sample_url_text)
  ultimately show ?thesis by (simp add: research_error_def)
qed

lemma analyze_total:
  assumes "dict_get document ''domain_info'' (PDict []) = PDict di"
  shows "\<exists>res. fst (analyze an rt document collection l) = Inr res"
proof (cases "truthy (dict_get di ''domain'' (PStr [])) \<and> truthy (dict_get di ''tld'' (PStr []))")
  case False
  then have "\<not> truthy (dict_get di ''domain'' (PStr [])) \<or> \<not> truthy (dict_get di ''tld'' (PStr []))"
    by blast
  from analyze_invalid[OF assms this] show ?thesis by simp
next
  case True
  then have t1: "truthy (dict_get di ''domain'' (PStr []))"
        and t2: "truthy (dict_get di ''tld'' (PStr []))" by blast+
  show ?thesis
  proof (cases collection)
    case None
    from research_total[of an rt "full_domain rt di" "url_text rt document" l]
    show ?thesis by (auto simp add: analyze_valid[OF assms t1 t2] None)
  next
    case (Some coll)
    from check_database_total[of coll "full_domain rt di" l]
    obtain v where v: "check_database_for_domain coll (full_domain rt di) l =
        (Inr v, l @ [FindOne (db_query (full_domain rt di)) db_projection])" by blast
    from research_total[of an rt "full_domain rt di" "url_text rt document"
           "l @ [FindOne (db_query (full_domain rt di)) db_projection]"]
    show ?thesis by (auto simp add: analyze_valid[OF assms t1 t2] Some v)
  qed
qed

lemma analyze_new_total:
  assumes "dict_get document ''domain_info'' (PDict []) = PDict di"
  shows "\<exists>res. fst (analyze_new cl rt document collection l) = Inr res"
proof (cases "truthy (dict_get di ''domain'' (PStr [])) \<and> truthy (dict_get di ''tld'' (PStr []))")
  case False
  then have "\<not> truthy (dict_get di ''domain'' (PStr [])) \<or> \<not> truthy (dict_get di ''tld'' (PStr []))"
    by blast
  from analyze_new_invalid[OF assms this] show ?thesis by simp
next
  case True
  then have t1: "truthy (dict_get di ''domain'' (PStr []))"
        and t2: "truthy (dict_get di ''tld'' (PStr []))" by blast+
  show ?thesis
    unfolding analyze_new_valid[OF assms t1 t2]
    by (simp split: sum.splits pyval.splits)
qed

lemma envelope_main:
  assumes "fst (analyze an rt document collection l) = Inr res"
  shows "\<exists>r. res = PDict r \<and> map_of r ''confidence'' \<noteq> None \<and> map_of r ''method'' \<noteq> None \<and>
             (map_of r ''method'' \<noteq> Some (PStr ''web_search'') \<longrightarrow> map_of r ''urheber'' \<noteq> None)"
  using analyze_result_cases[OF assms]
  by (auto simp add: database_hit_def research_error_def web_search_result_def update_conv')

lemma envelope_new:
  assumes "fst (analyze_new cl rt document collection l) = Inr res"
  shows "\<exists>r. res = PDict r \<and> map_of r ''confidence'' \<noteq> None \<and> map_of r ''method'' \<noteq> None \<and>
             (map_of r ''method'' \<noteq> Some (PStr ''responses_api_web_search'') \<longrightarrow>
                map_of r ''urheber'' \<noteq> None)"
  using analyze_new_result_cases[OF assms]
  by (auto simp add: research_error_def responses_result_def update_conv')

section \<open>Every call returns an envelope\<close>

text \<open>
  Claim C7, as the code has it. For every document whose \<open>domain_info\<close> is absent or a
  dictionary, and every store and provider, raising ones included, \<open>analyze\<close> of both
  files does not raise: it returns a dictionary with the fields \<open>confidence\<close> and
  \<open>method\<close>, and with the field \<open>urheber\<close> on every path that the code fills itself
  (failure, database hit, error). On a successful research the \<open>urheber\<close> field is there
  when the parsed answer of the provider has one.
\<close>

theorem analyze_returns_envelope:
  assumes "dict_get document ''domain_info'' (PDict []) = PDict di"
  shows "(\<exists>r. fst (analyze an rt document collection l) = Inr (PDict r) \<and>
              map_of r ''confidence'' \<noteq> None \<and> map_of r ''method'' \<noteq> None \<and>
              (map_of r ''method'' \<noteq> Some (PStr ''web_search'') \<longrightarrow>
                 map_of r ''urheber'' \<noteq> None))
       \<and> (\<exists>r. fst (analyze_new cl rt document collection l) = Inr (PDict r) \<and>
              map_of r ''confidence'' \<noteq> None \<and> map_of r ''method'' \<noteq> None \<and>
              (map_of r ''method'' \<noteq> Some (PStr ''responses_api_web_search'') \<longrightarrow>
                 map_of r ''urheber'' \<noteq> None))"
proof
  from analyze_total[OF assms, of an rt collection l]
  obtain res where res: "fst (analyze an rt document collection l) = Inr res" by blast
  from envelope_main[OF res] res
  show "\<exists>r. fst (analyze an rt document collection l) = Inr (PDict r) \<and>
              map_of r ''confidence'' \<noteq> None \<and> map_of r ''method'' \<noteq> None \<and>
              (map_of r ''method'' \<noteq> Some (PStr ''web_search'') \<longrightarrow>
                 map_of r ''urheber'' \<noteq> None)"
    by auto
next
  from analyze_new_total[OF assms, of cl rt collection l]
  obtain res where res: "fst (analyze_new cl rt document collection l) = Inr res" by blast
  from envelope_new[OF res] res
  show "\<exists>r. fst (analyze_new cl rt document collection l) = Inr (PDict r) \<and>
              map_of r ''confidence'' \<noteq> None \<and> map_of r ''method'' \<noteq> None \<and>
              (map_of r ''method'' \<noteq> Some (PStr ''responses_api_web_search'') \<longrightarrow>
                 map_of r ''urheber'' \<noteq> None)"
    by auto
qed

theorem analyze_returns_envelope_witness:
  "(\<exists>r. fst (analyze (sample_analyzer raising_client) sample_runtime sample_document
               (Some sample_store_raising) []) = Inr (PDict r) \<and>
        map_of r ''confidence'' \<noteq> None \<and> map_of r ''method'' \<noteq> None \<and>
        (map_of r ''method'' \<noteq> Some (PStr ''web_search'') \<longrightarrow> map_of r ''urheber'' \<noteq> None))
 \<and> (\<exists>r. fst (analyze_new raising_client sample_runtime sample_document
               (Some sample_store_raising) []) = Inr (PDict r) \<and>
        map_of r ''confidence'' \<noteq> None \<and> map_of r ''method'' \<noteq> None \<and>
        (map_of r ''method'' \<noteq> Some (PStr ''responses_api_web_search'') \<longrightarrow>
           map_of r ''urheber'' \<noteq> None))"
  using analyze_returns_envelope
    [OF sample_document_info, of "sample_analyzer raising_client" sample_runtime
        "Some sample_store_raising" "[]" raising_client]
  by simp

text \<open>
  A document whose \<open>domain_info\<close> is \<open>None\<close> makes both functions raise
  \<open>AttributeError\<close>; and the provider answer \<open>{}\<close> gives a result without the field
  \<open>urheber\<close>.
\<close>

theorem analyze_raises_on_none_domain_info:
  "fst (analyze (sample_analyzer (answering_client answer_unternehmen)) sample_runtime
          sample_document_none None []) =
     Inl (Exn ''AttributeError''
            (quoted ''NoneType'' @ '' object has no attribute '' @ quoted ''get''))
   \<and> fst (analyze_new (answering_client answer_unternehmen) sample_runtime
            sample_document_none None []) =
     Inl (Exn ''AttributeError''
            (quoted ''NoneType'' @ '' object has no attribute '' @ quoted ''get''))
   \<and> fst (analyze_new (answering_client answer_empty_object) sample_runtime
            sample_document None []) =
     Inr (PDict [(''method'', PStr ''responses_api_web_search''),
                 (''confidence'', PFloat 0.9), (''domain'', PStr ''example.org'')])"
proof -
  have none: "dict_get sample_document_none ''domain_info'' (PDict []) = PNone"
    by (simp add: sample_document_none_def dict_get_def)
  then have not_dict: "\<forall>di. dict_get sample_document_none ''domain_info'' (PDict []) \<noteq> PDict di"
    by simp
  show ?thesis
    by (simp add: analyze_not_dict[OF not_dict] analyze_new_not_dict[OF not_dict] none
          attribute_error_def sample_analyze_new sample_json_loads_texts responses_result_def)
qed

section \<open>The answer of the provider is not checked\<close>

text \<open>
  Claim C8, as the code has it. In \<^verbatim>\<open>src/new.py\<close>, for a document with a true
  \<open>domain\<close> and \<open>tld\<close> and a provider that answers: when \<open>json.loads\<close> raises on the
  text, or returns a value that is not a dictionary, the result has \<open>method = error\<close>;
  when it returns a dictionary, that dictionary is returned with \<open>method\<close>,
  \<open>confidence\<close> and \<open>domain\<close> written into it, and its \<open>urheber\<close> is whatever the
  provider wrote there, inside the seven categories or not. In \<^verbatim>\<open>src/main.py\<close>
  the same holds for the dictionary that \<open>_process_response\<close> returns.
\<close>

theorem provider_answer_returned_unchecked:
  assumes "dict_get document ''domain_info'' (PDict []) = PDict di"
      and "truthy (dict_get di ''domain'' (PStr []))"
      and "truthy (dict_get di ''tld'' (PStr []))"
      and "responses_create cl l (urheber_request (full_domain rt di) (url_text rt document)) =
             Inr response"
  shows "fst (analyze_new cl rt document collection l) =
           (case json_loads rt (output_text response) of
              Inl e \<Rightarrow> Inr (research_error (full_domain rt di) e)
            | Inr (PDict d) \<Rightarrow> Inr (responses_result d (full_domain rt di))
            | Inr v \<Rightarrow> Inr (research_error (full_domain rt di) (attribute_error v ''update'')))
       \<and> (\<forall>d. field (responses_result d (full_domain rt di)) ''urheber'' = map_of d ''urheber'')
       \<and> (\<forall>d l1 l2.
            cache_miss collection (full_domain rt di) l l1 \<and>
            research_classify an rt (full_domain rt di) (url_text rt document) l1 =
              (Inr (PDict d), l2)
            \<longrightarrow> fst (analyze an rt document collection l) =
                  Inr (web_search_result d (full_domain rt di)))
       \<and> (\<forall>d. field (web_search_result d (full_domain rt di)) ''urheber'' = map_of d ''urheber'')"
proof -
  have new_part: "fst (analyze_new cl rt document collection l) =
           (case json_loads rt (output_text response) of
              Inl e \<Rightarrow> Inr (research_error (full_domain rt di) e)
            | Inr (PDict d) \<Rightarrow> Inr (responses_result d (full_domain rt di))
            | Inr v \<Rightarrow> Inr (research_error (full_domain rt di) (attribute_error v ''update'')))"
    by (simp add: analyze_new_valid[OF assms(1-3)] assms(4))
  have main_part: "\<forall>d l1 l2.
            cache_miss collection (full_domain rt di) l l1 \<and>
            research_classify an rt (full_domain rt di) (url_text rt document) l1 =
              (Inr (PDict d), l2)
            \<longrightarrow> fst (analyze an rt document collection l) =
                  Inr (web_search_result d (full_domain rt di))"
  proof (intro allI impI, elim conjE)
    fix d l1 l2
    assume miss: "cache_miss collection (full_domain rt di) l l1"
       and run: "research_classify an rt (full_domain rt di) (url_text rt document) l1 =
                   (Inr (PDict d), l2)"
    show "fst (analyze an rt document collection l) =
            Inr (web_search_result d (full_domain rt di))"
      using research_after_classify[OF run]
      by (simp add: analyze_miss[OF assms(1-3) miss])
  qed
  from new_part main_part show ?thesis
    by (simp add: read_web_search_result read_responses_result)
qed

theorem provider_answer_returned_unchecked_witness:
  "fst (analyze_new (answering_client answer_unternehmen) sample_runtime sample_document
          None []) =
     Inr (responses_result
            [(''urheber'', PStr ''Unternehmen''), (key_begruendung, PStr ''Impressum''),
             (''quellen'', PList [PStr ''https://example.org/impressum''])] ''example.org'')
   \<and> fst (analyze (sample_analyzer (answering_client answer_unternehmen)) sample_runtime
            sample_document None []) =
     Inr (web_search_result
            [(''urheber'', PStr ''Unternehmen''), (key_begruendung, PStr ''Impressum''),
             (''quellen'', PList [PStr ''https://example.org/impressum''])] ''example.org'')"
proof -
  have answer: "responses_create (answering_client answer_unternehmen) []
                  (urheber_request
                     (full_domain sample_runtime
                        [(''domain'', PStr ''example''), (''tld'', PStr ''org'')])
                     (url_text sample_runtime sample_document)) =
                Inr \<lparr> output_text = answer_unternehmen \<rparr>"
    by (simp add: answering_client_def)
  have miss: "cache_miss None ''example.org'' [] []"
    by (simp add: cache_miss_def)
  have run: "research_classify (sample_analyzer (answering_client answer_unternehmen))
               sample_runtime ''example.org'' ''https://help.example.org/x'' [] =
     (Inr (PDict [(''urheber'', PStr ''Unternehmen''), (key_begruendung, PStr ''Impressum''),
                  (''quellen'', PList [PStr ''https://example.org/impressum''])]),
      [ChatCreate (search_request ''example.org'' ''https://help.example.org/x''),
       ChatCreate (results_request ''example.org'' ''https://help.example.org/x''
          \<lparr> msg_content = None,
            msg_tool_calls = Some [\<lparr> tc_id = ''call_1'', tc_arguments = tool_arguments \<rparr>] \<rparr>
          \<lparr> tc_id = ''call_1'', tc_arguments = tool_arguments \<rparr>),
       ChatCreate (classification_request ''example.org'' (Some answer_unternehmen)
          ''https://help.example.org/x'')])"
    by (simp add: sample_research_classify sample_json_loads_texts)
  note inst = provider_answer_returned_unchecked
      [OF sample_document_info sample_truthy answer,
       of None "sample_analyzer (answering_client answer_unternehmen)",
       unfolded sample_full_domain sample_url_text]
  from inst have new_part:
    "fst (analyze_new (answering_client answer_unternehmen) sample_runtime sample_document
            None []) =
       Inr (responses_result
              [(''urheber'', PStr ''Unternehmen''), (key_begruendung, PStr ''Impressum''),
               (''quellen'', PList [PStr ''https://example.org/impressum''])] ''example.org'')"
    by (simp add: sample_runtime_sel sample_json_loads_texts)
  from inst miss run have main_part:
    "fst (analyze (sample_analyzer (answering_client answer_unternehmen)) sample_runtime
            sample_document None []) =
       Inr (web_search_result
              [(''urheber'', PStr ''Unternehmen''), (key_begruendung, PStr ''Impressum''),
               (''quellen'', PList [PStr ''https://example.org/impressum''])] ''example.org'')"
    by blast
  from new_part main_part show ?thesis by blast
qed

text \<open>
  The provider answer \<open>{"urheber": "Bank"}\<close> is returned as a successful research by both
  files, and \<open>Bank\<close> is none of the seven categories.
\<close>

theorem category_outside_the_set_accepted:
  "fst (analyze_new (answering_client answer_bank) sample_runtime sample_document None []) =
     Inr (PDict [(''urheber'', PStr ''Bank''),
                 (''method'', PStr ''responses_api_web_search''),
                 (''confidence'', PFloat 0.9), (''domain'', PStr ''example.org'')])
   \<and> fst (analyze (sample_analyzer (answering_client answer_bank)) sample_runtime
            sample_document None []) =
     Inr (PDict [(''urheber'', PStr ''Bank''), (''method'', PStr ''web_search''),
                 (''confidence'', PFloat 0.8), (''domain'', PStr ''example.org'')])
   \<and> ''Bank'' \<notin> set categories"
  by (simp add: sample_analyze_new sample_json_loads_texts responses_result_def
        sample_analyze_research_dict[OF sample_json_loads_texts(2)] web_search_result_def
        categories_def)

lemma li_ret: "log_independent (ret x)"
  by (simp add: log_independent_def ret_def)

lemma li_lift: "log_independent (lift r)"
  by (simp add: log_independent_def lift_def)

lemma li_call:
  assumes "\<forall>l l'. answer l = answer l'"
  shows "log_independent (call ev answer)"
  using assms by (simp add: log_independent_def call_def)

lemma li_ebind:
  assumes m: "log_independent m" and f: "\<And>x. log_independent (f x)"
  shows "log_independent (ebind m f)"
  unfolding log_independent_def
proof (intro allI)
  fix l l'
  from m have same: "fst (m l) = fst (m l')" by (simp add: log_independent_def)
  obtain r l1 where r: "m l = (r, l1)" by (cases "m l")
  obtain r' l1' where r': "m l' = (r', l1')" by (cases "m l'")
  from same r r' have eq: "r' = r" by simp
  show "fst (ebind m f l) = fst (ebind m f l')"
  proof (cases r)
    case (Inl e)
    with r r' eq show ?thesis by (simp add: ebind_def)
  next
    case (Inr x)
    from f[of x] have "fst (f x l1) = fst (f x l1')" by (simp add: log_independent_def)
    with Inr r r' eq show ?thesis by (simp add: ebind_def)
  qed
qed

lemma li_catch:
  assumes m: "log_independent m" and h: "\<And>e. log_independent (h e)"
  shows "log_independent (catch m h)"
  unfolding log_independent_def
proof (intro allI)
  fix l l'
  from m have same: "fst (m l) = fst (m l')" by (simp add: log_independent_def)
  obtain r l1 where r: "m l = (r, l1)" by (cases "m l")
  obtain r' l1' where r': "m l' = (r', l1')" by (cases "m l'")
  from same r r' have eq: "r' = r" by simp
  show "fst (catch m h l) = fst (catch m h l')"
  proof (cases r)
    case (Inl e)
    from h[of e] have "fst (h e l1) = fst (h e l1')" by (simp add: log_independent_def)
    with Inl r r' eq show ?thesis by (simp add: catch_def)
  next
    case (Inr x)
    with r r' eq show ?thesis by (simp add: catch_def)
  qed
qed

lemma li_check_database:
  assumes "\<forall>l l' q p. coll l q p = coll l' q p"
  shows "log_independent (check_database_for_domain coll domain)"
  unfolding check_database_for_domain_def
proof (intro li_catch li_ebind li_call li_ret)
  show "\<forall>l l'. coll l (db_query domain) db_projection = coll l' (db_query domain) db_projection"
    using assms by blast
next
  fix result :: "pydict option"
  show "log_independent
          (case result of
             None \<Rightarrow> ret PNone
           | Some r \<Rightarrow> if r \<noteq> [] \<and> map_of r ''urheber'' \<noteq> None
                       then ret (dict_get r ''urheber'' PNone) else ret PNone)"
    by (cases result) (simp_all add: li_ret)
qed

lemma li_chat:
  assumes "deterministic_client (self_client an)"
  shows "log_independent (call (ChatCreate r) (\<lambda>l. chat_create (self_client an) l r))"
  using assms by (intro li_call) (simp add: deterministic_client_def)

lemma li_research_classify:
  assumes "deterministic_client (self_client an)"
  shows "log_independent (research_classify an rt domain url)"
  unfolding research_classify_def
  by (intro li_ebind li_lift li_ret li_chat[OF assms])
     (auto intro!: li_ebind li_lift li_ret li_chat[OF assms] split: option.splits list.splits)

lemma li_research:
  assumes "deterministic_client (self_client an)"
  shows "log_independent (research_domain_with_web_search an rt domain url)"
  unfolding research_domain_with_web_search_def research_body_def
  by (intro li_catch li_ebind li_lift li_ret li_research_classify[OF assms])

lemma li_analyze:
  assumes "deterministic_client (self_client an)" and "deterministic_store collection"
  shows "log_independent (analyze an rt document collection)"
proof (cases collection)
  case None
  show ?thesis
    unfolding analyze_def Let_def None
    by (intro li_ebind li_lift) (auto intro!: li_ret li_research[OF assms(1)])
next
  case (Some coll)
  with assms(2) have det: "\<forall>l l' q p. coll l q p = coll l' q p"
    by (simp add: deterministic_store_def)
  show ?thesis
    unfolding analyze_def Let_def Some
    by (intro li_ebind li_lift)
       (auto intro!: li_ret li_ebind li_check_database[OF det] li_research[OF assms(1)])
qed

lemma li_analyze_new:
  assumes "deterministic_client cl"
  shows "log_independent (analyze_new cl rt document collection)"
  unfolding analyze_new_def Let_def
  by (intro li_ebind li_lift)
     (auto intro!: li_ret li_catch li_ebind li_lift li_call
           simp add: assms[unfolded deterministic_client_def])

section \<open>Calling twice\<close>

text \<open>
  Claim C9. With a provider and a store whose answers do not depend on earlier calls, a
  second call of \<open>analyze\<close> on the same document and store, made after the first one
  (from the call log the first one left), returns the same result as the first, in both
  files: nothing a call leaves behind changes the outcome of the next.
\<close>

theorem analyze_twice_same_result:
  assumes "deterministic_client (self_client an)"
      and "deterministic_client cl"
      and "deterministic_store collection"
  shows "fst (analyze an rt document collection (snd (analyze an rt document collection l))) =
           fst (analyze an rt document collection l)
       \<and> fst (analyze_new cl rt document collection
                (snd (analyze_new cl rt document collection l))) =
           fst (analyze_new cl rt document collection l)"
  using li_analyze[OF assms(1,3), of rt document] li_analyze_new[OF assms(2), of rt document collection]
  unfolding log_independent_def by blast

lemma answering_client_deterministic: "deterministic_client (answering_client t)"
  by (simp add: deterministic_client_def answering_client_def)

lemma sample_store_deterministic: "deterministic_store (Some sample_store)"
  by (simp add: deterministic_store_def sample_store_def)

theorem analyze_twice_same_result_witness:
  "fst (analyze (sample_analyzer (answering_client answer_unternehmen)) sample_runtime
          sample_document (Some sample_store)
          (snd (analyze (sample_analyzer (answering_client answer_unternehmen)) sample_runtime
                  sample_document (Some sample_store) []))) =
     fst (analyze (sample_analyzer (answering_client answer_unternehmen)) sample_runtime
            sample_document (Some sample_store) [])
   \<and> fst (analyze_new (answering_client answer_unternehmen) sample_runtime sample_document
            (Some sample_store)
            (snd (analyze_new (answering_client answer_unternehmen) sample_runtime
                    sample_document (Some sample_store) []))) =
     fst (analyze_new (answering_client answer_unternehmen) sample_runtime sample_document
            (Some sample_store) [])"
proof -
  have own: "deterministic_client
               (self_client (sample_analyzer (answering_client answer_unternehmen)))"
    by (simp add: sample_analyzer_def answering_client_deterministic)
  show ?thesis
    using analyze_twice_same_result
      [OF own answering_client_deterministic sample_store_deterministic,
       of sample_runtime sample_document "[]"]
    by simp
qed

end
